theory Spec2Isabelle
  imports Main "HOL-Library.Sublist" "HOL-Library.AList" "HOL-Library.Char_ord"
    "HOL-Library.List_Lexorder" "HOL-Library.Multiset"
begin

section \<open>Scala source dependency analysis: data model\<close>

text \<open>
  The embedding follows \<^verbatim>\<open>pants/backend/scala/dependency_inference/scala_parser.py\<close>.
  Python strings are \<open>string\<close>. A \<^verbatim>\<open>dict\<close> or \<^verbatim>\<open>FrozenDict\<close> is an association
  list in insertion order, which is the order \<^verbatim>\<open>.items()\<close> iterates in; the keys of a
  Python dictionary are pairwise different, which is the predicate \<open>wf_dict\<close>. A
  \<^verbatim>\<open>FrozenOrderedSet\<close> is the list of its members in iteration order.
\<close>

type_synonym ('k, 'v) dict = "('k \<times> 'v) list"

definition wf_dict :: "('k, 'v) dict \<Rightarrow> bool" where
  "wf_dict d = distinct (map fst d)"

text \<open>\<^verbatim>\<open>d[k] = v\<close>: an existing key keeps its place and takes the new value, a new key
  goes to the end.\<close>

abbreviation dict_setitem :: "('k, 'v) dict \<Rightarrow> 'k \<Rightarrow> 'v \<Rightarrow> ('k, 'v) dict" where
  "dict_setitem d k v \<equiv> AList.update k v d"

text \<open>\<^verbatim>\<open>@dataclass(frozen=True) class ScalaImport\<close>\<close>

record ScalaImport =
  name :: string
  is_wildcard :: bool

text \<open>\<^verbatim>\<open>@dataclass(frozen=True) class ScalaSourceDependencyAnalysis\<close>\<close>

record ScalaSourceDependencyAnalysis =
  provided_symbols :: "string list"
  provided_symbols_encoded :: "string list"
  imports_by_scope :: "(string, ScalaImport list) dict"
  consumed_symbols_by_scope :: "(string, string list) dict"
  scopes :: "string list"

text \<open>The invariants the Python types give an analysis: dictionary keys are pairwise
  different and an ordered set holds no element twice.\<close>

definition wf_analysis :: "ScalaSourceDependencyAnalysis \<Rightarrow> bool" where
  "wf_analysis a \<longleftrightarrow>
     distinct (provided_symbols a) \<and> distinct (provided_symbols_encoded a) \<and>
     wf_dict (imports_by_scope a) \<and> wf_dict (consumed_symbols_by_scope a) \<and>
     list_all (\<lambda>(k, v). distinct v) (consumed_symbols_by_scope a) \<and>
     distinct (scopes a)"

section \<open>The resolver\<close>

text \<open>\<^verbatim>\<open>all_imports\<close>: the names of all imports, scope by scope.\<close>

definition all_imports :: "ScalaSourceDependencyAnalysis \<Rightarrow> string list" where
  "all_imports a = concat (map (\<lambda>(scope, imports). map name imports) (imports_by_scope a))"

text \<open>
  The first loop of \<^verbatim>\<open>fully_qualified_consumed_symbols\<close>: a fresh dictionary that maps
  each scope with at least one wildcard import to the tuple of its wildcard imports.
\<close>

definition wildcard_imports_by_scope ::
  "ScalaSourceDependencyAnalysis \<Rightarrow> (string, ScalaImport list) dict" where
  "wildcard_imports_by_scope a =
     fold (\<lambda>(scope, imports) acc.
             let wildcard_imports = filter is_wildcard imports
             in if wildcard_imports \<noteq> [] then dict_setitem acc scope wildcard_imports else acc)
          (imports_by_scope a) []"

text \<open>
  \<^verbatim>\<open>parent_scope_wildcards\<close> is a Python \<^verbatim>\<open>set\<close> built by a comprehension. Python does
  not fix the order in which a \<^verbatim>\<open>set\<close> is iterated: it depends on the hashes of the
  members, which are stable within one process. The order is therefore a parameter
  \<open>set_iter\<close>: it maps the members in the order the comprehension inserts them to the
  members in the order the later \<^verbatim>\<open>for\<close> loop visits them. Every such order lists each
  member once, which is \<open>is_set_iteration\<close>. \<open>parent_scope_wildcards_inserted\<close> is the
  sequence of insertions the comprehension makes.
\<close>

type_synonym set_iteration = "ScalaImport list \<Rightarrow> ScalaImport list"

definition is_set_iteration :: "set_iteration \<Rightarrow> bool" where
  "is_set_iteration set_iter \<longleftrightarrow> (\<forall>xs. set (set_iter xs) = set xs \<and> distinct (set_iter xs))"

definition parent_scope_wildcards_inserted ::
  "(string, ScalaImport list) dict \<Rightarrow> string \<Rightarrow> ScalaImport list" where
  "parent_scope_wildcards_inserted wibs scope =
     concat (map (\<lambda>(s, wildcard_imports).
                    filter (\<lambda>wi. prefix s scope) wildcard_imports) wibs)"

definition parent_scope_wildcards ::
  "set_iteration \<Rightarrow> (string, ScalaImport list) dict \<Rightarrow> string \<Rightarrow> ScalaImport list" where
  "parent_scope_wildcards set_iter wibs scope =
     set_iter (parent_scope_wildcards_inserted wibs scope)"


text \<open>The body of \<^verbatim>\<open>for symbol in consumed_symbols\<close>: the three groups of yields for one
  symbol, in the order of the source.\<close>

definition symbol_candidates ::
  "ScalaSourceDependencyAnalysis \<Rightarrow> ScalaImport list \<Rightarrow> string \<Rightarrow> string list" where
  "symbol_candidates a psw symbol =
     map (\<lambda>scope. scope @ ''.'' @ symbol) (scopes a) @
     (if scopes a = [] \<or> CHR ''.'' \<in> set symbol then [symbol] else []) @
     map (\<lambda>wildcard_scope. name wildcard_scope @ ''.'' @ symbol) psw"

text \<open>
  The body of the outer loop, for one item of \<^verbatim>\<open>consumed_symbols_by_scope\<close>. The
  inner loop over \<^verbatim>\<open>self.scopes\<close> reuses the variable \<^verbatim>\<open>scope\<close>; the parent wildcards
  have been computed from the scope of the item before that, once per item.
\<close>

definition scope_candidates ::
  "set_iteration \<Rightarrow> ScalaSourceDependencyAnalysis \<Rightarrow> (string, ScalaImport list) dict \<Rightarrow>
   string \<times> string list \<Rightarrow> string list" where
  "scope_candidates set_iter a wibs item =
     (case item of (scope, consumed_symbols) \<Rightarrow>
        let psw = parent_scope_wildcards set_iter wibs scope
        in concat (map (symbol_candidates a psw) consumed_symbols))"

text \<open>\<^verbatim>\<open>fully_qualified_consumed_symbols\<close>: everything the generator yields, in order.\<close>

definition fully_qualified_consumed_symbols ::
  "set_iteration \<Rightarrow> ScalaSourceDependencyAnalysis \<Rightarrow> string list" where
  "fully_qualified_consumed_symbols set_iter a =
     (let wibs = wildcard_imports_by_scope a
      in concat (map (scope_candidates set_iter a wibs) (consumed_symbols_by_scope a)))"

text \<open>
  The method is a generator function: each call returns a new generator object, and the
  only state of that object is what remains to be yielded. \<open>gen_next\<close> is Python's
  \<^verbatim>\<open>next\<close>, with \<open>None\<close> for \<^verbatim>\<open>StopIteration\<close>; the analysis itself is a frozen
  dataclass and no operation changes it.
\<close>

datatype 'a generator = Generator "'a list"

fun gen_next :: "'a generator \<Rightarrow> ('a \<times> 'a generator) option" where
  "gen_next (Generator []) = None"
| "gen_next (Generator (x # xs)) = Some (x, Generator xs)"


text \<open>\<^verbatim>\<open>list(g)\<close> with a bound on the calls of \<^verbatim>\<open>next\<close>: \<open>None\<close> when the bound is
  reached before \<^verbatim>\<open>StopIteration\<close>.\<close>

fun run_generator :: "nat \<Rightarrow> 'a generator \<Rightarrow> 'a list option" where
  "run_generator 0 g = None"
| "run_generator (Suc n) g =
     (case gen_next g of
        None \<Rightarrow> Some []
      | Some (x, g') \<Rightarrow> map_option ((#) x) (run_generator n g'))"

definition iter_fully_qualified_consumed_symbols ::
  "set_iteration \<Rightarrow> ScalaSourceDependencyAnalysis \<Rightarrow> string generator" where
  "iter_fully_qualified_consumed_symbols set_iter a =
     Generator (fully_qualified_consumed_symbols set_iter a)"

text \<open>The analysis of the example of the specification.\<close>

definition example_analysis :: ScalaSourceDependencyAnalysis where
  "example_analysis =
     \<lparr> provided_symbols = [], provided_symbols_encoded = [],
       imports_by_scope = [(''com.foo.Bar'', [\<lparr> name = ''com.baz._'', is_wildcard = True \<rparr>])],
       consumed_symbols_by_scope = [(''com.foo.Bar'', [''Qux''])],
       scopes = [''com.foo.Bar''] \<rparr>"

text \<open>The prefix caveat: a wildcard import of scope \<open>com.foo\<close>, one symbol consumed in
  scope \<open>com.foobar\<close> and another in scope \<open>org.other\<close>.\<close>

definition prefix_caveat_analysis :: ScalaSourceDependencyAnalysis where
  "prefix_caveat_analysis =
     \<lparr> provided_symbols = [], provided_symbols_encoded = [],
       imports_by_scope = [(''com.foo'', [\<lparr> name = ''org.lib._'', is_wildcard = True \<rparr>])],
       consumed_symbols_by_scope = [(''com.foobar'', [''Widget'']), (''org.other'', [''Gadget''])],
       scopes = [''com.foo'', ''com.foobar'', ''org.other''] \<rparr>"


text \<open>A symbol with a dot and a plain one, consumed in a file that has a scope.\<close>

definition dotted_symbol_analysis :: ScalaSourceDependencyAnalysis where
  "dotted_symbol_analysis =
     \<lparr> provided_symbols = [], provided_symbols_encoded = [],
       imports_by_scope = [],
       consumed_symbols_by_scope = [(''com.foo'', [''scala.Int'', ''Bar''])],
       scopes = [''com.foo''] \<rparr>"

text \<open>No scope, no import: two consumed symbols at the top level.\<close>

definition no_scopes_analysis :: ScalaSourceDependencyAnalysis where
  "no_scopes_analysis =
     \<lparr> provided_symbols = [], provided_symbols_encoded = [],
       imports_by_scope = [],
       consumed_symbols_by_scope = [([], [''Foo'', ''Bar''])],
       scopes = [] \<rparr>"

text \<open>Nothing declared, imported or consumed.\<close>

definition empty_analysis :: ScalaSourceDependencyAnalysis where
  "empty_analysis =
     \<lparr> provided_symbols = [], provided_symbols_encoded = [], imports_by_scope = [],
       consumed_symbols_by_scope = [], scopes = [] \<rparr>"

section \<open>Serialization\<close>

text \<open>The exceptions the module can raise.\<close>

datatype error =
    KeyError string
  | ValueError string
  | TypeError string
  | AttributeError string
  | IndexError
  | JSONDecodeError
  | ProcessExecutionFailure int string string string bool

text \<open>
  Modelled from the spec: \<^verbatim>\<open>FrozenOrderedSet\<close> (\<^verbatim>\<open>pants.util.ordered_set\<close>) is not
  among the sources. The specification describes these fields as sets that hold no
  duplicates and keep insertion order, the order of first appearance. The constructor
  therefore goes through its argument from left to right and appends each element that
  is not yet a member. \<^verbatim>\<open>FrozenDict\<close> (\<^verbatim>\<open>pants.util.frozendict\<close>) freezes a dictionary
  as it is.
\<close>

definition FrozenOrderedSet :: "'a list \<Rightarrow> 'a list" where
  "FrozenOrderedSet xs = fold (\<lambda>x acc. if x \<in> set acc then acc else acc @ [x]) xs []"

text \<open>
  The transport record is the parsed JSON object. A field is \<open>None\<close> when the object
  has no such key; the field \<open>json_scopes\<close> is the key \<^verbatim>\<open>scopes\<close>, and \<open>json_name\<close> the
  key \<^verbatim>\<open>name\<close> of an import.
\<close>

record ScalaImport_json =
  json_name :: "string option"
  isWildcard :: "bool option"

record analysis_json =
  providedSymbols :: "string list option"
  providedSymbolsEncoded :: "string list option"
  importsByScope :: "(string, ScalaImport_json list) dict option"
  consumedSymbolsByScope :: "(string, string list) dict option"
  json_scopes :: "string list option"

text \<open>\<^verbatim>\<open>d[key]\<close> on the parsed object.\<close>

definition getitem :: "string \<Rightarrow> 'a option \<Rightarrow> error + 'a" where
  "getitem key field = (case field of None \<Rightarrow> Inl (KeyError key) | Some v \<Rightarrow> Inr v)"

text \<open>\<^verbatim>\<open>ScalaImport.from_json_dict\<close>: the arguments are evaluated from left to right.\<close>

definition ScalaImport_from_json_dict :: "ScalaImport_json \<Rightarrow> error + ScalaImport" where
  "ScalaImport_from_json_dict data =
     (case getitem ''name'' (json_name data) of
        Inl e \<Rightarrow> Inl e
      | Inr n \<Rightarrow>
         (case getitem ''isWildcard'' (isWildcard data) of
            Inl e \<Rightarrow> Inl e
          | Inr w \<Rightarrow> Inr \<lparr> name = n, is_wildcard = w \<rparr>))"

text \<open>\<^verbatim>\<open>tuple(f(v) for v in values)\<close>: the first exception ends the evaluation.\<close>

fun tuple_of :: "('a \<Rightarrow> error + 'b) \<Rightarrow> 'a list \<Rightarrow> error + 'b list" where
  "tuple_of f [] = Inr []"
| "tuple_of f (v # values) =
     (case f v of
        Inl e \<Rightarrow> Inl e
      | Inr w \<Rightarrow> (case tuple_of f values of Inl e \<Rightarrow> Inl e | Inr ws \<Rightarrow> Inr (w # ws)))"

text \<open>\<^verbatim>\<open>{key: f(values) for key, values in items}\<close>, continuing from the dictionary
  built so far.\<close>

fun dict_comprehension ::
  "('v \<Rightarrow> 'w) \<Rightarrow> ('k \<times> 'v) list \<Rightarrow> ('k, 'w) dict \<Rightarrow> ('k, 'w) dict" where
  "dict_comprehension f [] acc = acc"
| "dict_comprehension f ((key, values) # items) acc =
     dict_comprehension f items (dict_setitem acc key (f values))"

text \<open>The same comprehension with a value expression that can raise: the first
  exception ends the evaluation.\<close>

fun dict_comprehension_raising ::
  "('v \<Rightarrow> error + 'w) \<Rightarrow> ('k \<times> 'v) list \<Rightarrow> ('k, 'w) dict \<Rightarrow> error + ('k, 'w) dict" where
  "dict_comprehension_raising f [] acc = Inr acc"
| "dict_comprehension_raising f ((key, values) # items) acc =
     (case f values of
        Inl e \<Rightarrow> Inl e
      | Inr w \<Rightarrow> dict_comprehension_raising f items (dict_setitem acc key w))"

text \<open>\<^verbatim>\<open>ScalaSourceDependencyAnalysis.from_json_dict\<close>\<close>

definition from_json_dict :: "analysis_json \<Rightarrow> error + ScalaSourceDependencyAnalysis" where
  "from_json_dict d =
     (case getitem ''providedSymbols'' (providedSymbols d) of
        Inl e \<Rightarrow> Inl e
      | Inr ps \<Rightarrow>
     (case getitem ''providedSymbolsEncoded'' (providedSymbolsEncoded d) of
        Inl e \<Rightarrow> Inl e
      | Inr pse \<Rightarrow>
     (case getitem ''importsByScope'' (importsByScope d) of
        Inl e \<Rightarrow> Inl e
      | Inr ibs \<Rightarrow>
     (case dict_comprehension_raising (tuple_of ScalaImport_from_json_dict) ibs [] of
        Inl e \<Rightarrow> Inl e
      | Inr imports \<Rightarrow>
     (case getitem ''consumedSymbolsByScope'' (consumedSymbolsByScope d) of
        Inl e \<Rightarrow> Inl e
      | Inr cbs \<Rightarrow>
     (case getitem ''scopes'' (json_scopes d) of
        Inl e \<Rightarrow> Inl e
      | Inr ss \<Rightarrow>
         Inr \<lparr> provided_symbols = FrozenOrderedSet ps,
               provided_symbols_encoded = FrozenOrderedSet pse,
               imports_by_scope = imports,
               consumed_symbols_by_scope = dict_comprehension FrozenOrderedSet cbs [],
               scopes = FrozenOrderedSet ss \<rparr>))))))"

text \<open>
  The debug record is a dictionary with five fixed keys, and each import in it a
  dictionary with the keys \<^verbatim>\<open>name\<close> and \<^verbatim>\<open>is_wildcard\<close>; the fields carry the prefix
  \<open>debug_\<close>.
\<close>

record ScalaImport_debug =
  debug_name :: string
  debug_is_wildcard :: bool

record analysis_debug =
  debug_provided_symbols :: "string list"
  debug_provided_symbols_encoded :: "string list"
  debug_imports_by_scope :: "(string, ScalaImport_debug list) dict"
  debug_consumed_symbols_by_scope :: "(string, string list) dict"
  debug_scopes :: "string list"

text \<open>\<^verbatim>\<open>ScalaImport.to_debug_json_dict\<close>\<close>

definition ScalaImport_to_debug_json_dict :: "ScalaImport \<Rightarrow> ScalaImport_debug" where
  "ScalaImport_to_debug_json_dict imp =
     \<lparr> debug_name = name imp, debug_is_wildcard = is_wildcard imp \<rparr>"

text \<open>\<^verbatim>\<open>ScalaSourceDependencyAnalysis.to_debug_json_dict\<close>. Python's \<^verbatim>\<open>sorted\<close> orders
  strings lexicographically by character code, as \<open>sort\<close> does on \<open>string\<close>.\<close>

definition to_debug_json_dict :: "ScalaSourceDependencyAnalysis \<Rightarrow> analysis_debug" where
  "to_debug_json_dict a =
     \<lparr> debug_provided_symbols = provided_symbols a,
       debug_provided_symbols_encoded = provided_symbols_encoded a,
       debug_imports_by_scope =
         dict_comprehension (map ScalaImport_to_debug_json_dict) (imports_by_scope a) [],
       debug_consumed_symbols_by_scope =
         dict_comprehension sort (consumed_symbols_by_scope a) [],
       debug_scopes = scopes a \<rparr>"

text \<open>
  What ``deduplicated, in order of first occurrence'' says of a result \<open>r\<close> for an input
  list \<open>xs\<close>: \<open>r\<close> has the members of \<open>xs\<close>, each once, ordered by the position at
  which they first occur in \<open>xs\<close>.
\<close>

definition first_index :: "'a list \<Rightarrow> 'a \<Rightarrow> nat" where
  "first_index xs x = length (takeWhile (\<lambda>y. y \<noteq> x) xs)"

definition in_first_occurrence_order :: "'a list \<Rightarrow> 'a list \<Rightarrow> bool" where
  "in_first_occurrence_order xs r \<longleftrightarrow>
     distinct r \<and> set r = set xs \<and>
     sorted_wrt (\<lambda>x y. first_index xs x < first_index xs y) r"

text \<open>The import that a JSON object with both keys stands for.\<close>

definition import_of_json :: "ScalaImport_json \<Rightarrow> ScalaImport" where
  "import_of_json v = \<lparr> name = the (json_name v), is_wildcard = the (isWildcard v) \<rparr>"

text \<open>A transport record with repeated entries, the analysis it deserializes to and
  the debug record of that analysis.\<close>

definition example_imports_json :: "(string, ScalaImport_json list) dict" where
  "example_imports_json =
     [(''com.foo.Bar'', [\<lparr> json_name = Some ''com.baz._'', isWildcard = Some True \<rparr>,
                         \<lparr> json_name = Some ''scala.Int'', isWildcard = Some False \<rparr>])]"

definition example_consumed_json :: "(string, string list) dict" where
  "example_consumed_json = [(''com.foo.Bar'', [''Qux'', ''Baz'', ''Qux''])]"

definition example_json :: analysis_json where
  "example_json =
     \<lparr> providedSymbols = Some [''com.foo.Bar'', ''com.foo.Baz'', ''com.foo.Bar''],
       providedSymbolsEncoded = Some [''com.foo.Bar'', ''com.foo.Baz''],
       importsByScope = Some example_imports_json,
       consumedSymbolsByScope = Some example_consumed_json,
       json_scopes = Some [''com.foo.Bar'', ''com.foo'', ''com.foo.Bar''] \<rparr>"

definition example_deserialized :: ScalaSourceDependencyAnalysis where
  "example_deserialized =
     \<lparr> provided_symbols = [''com.foo.Bar'', ''com.foo.Baz''],
       provided_symbols_encoded = [''com.foo.Bar'', ''com.foo.Baz''],
       imports_by_scope =
         [(''com.foo.Bar'', [\<lparr> name = ''com.baz._'', is_wildcard = True \<rparr>,
                             \<lparr> name = ''scala.Int'', is_wildcard = False \<rparr>])],
       consumed_symbols_by_scope = [(''com.foo.Bar'', [''Qux'', ''Baz''])],
       scopes = [''com.foo.Bar'', ''com.foo''] \<rparr>"

definition example_debug :: analysis_debug where
  "example_debug =
     \<lparr> debug_provided_symbols = [''com.foo.Bar'', ''com.foo.Baz''],
       debug_provided_symbols_encoded = [''com.foo.Bar'', ''com.foo.Baz''],
       debug_imports_by_scope =
         [(''com.foo.Bar'', [\<lparr> debug_name = ''com.baz._'', debug_is_wildcard = True \<rparr>,
                             \<lparr> debug_name = ''scala.Int'', debug_is_wildcard = False \<rparr>])],
       debug_consumed_symbols_by_scope = [(''com.foo.Bar'', [''Baz'', ''Qux''])],
       debug_scopes = [''com.foo.Bar'', ''com.foo''] \<rparr>"

section \<open>The resolver on unchecked values\<close>

text \<open>
  Python does not enforce the annotations of the dataclasses: the constructors accept any
  value as a scope, a symbol, an import name or a wildcard flag, and the resolver then
  applies string operations to them. To state that the resolver does not raise, the
  method is embedded a second time, over values whose type is not known in advance and
  with every operation that can raise returning the exception. A value here is a
  \<^verbatim>\<open>str\<close>, a \<^verbatim>\<open>bool\<close> or \<^verbatim>\<open>None\<close>. The payload of a \<^verbatim>\<open>TypeError\<close> or an
  \<^verbatim>\<open>AttributeError\<close> names the operation that raised it.
\<close>

datatype pyval = PStr string | PBool bool | PNone

text \<open>How an f-string renders a value.\<close>

fun py_str :: "pyval \<Rightarrow> string" where
  "py_str (PStr s) = s"
| "py_str (PBool True) = ''True''"
| "py_str (PBool False) = ''False''"
| "py_str PNone = ''None''"

text \<open>The truth value of a value in a condition.\<close>

fun py_truthy :: "pyval \<Rightarrow> bool" where
  "py_truthy (PStr s) = (s \<noteq> [])"
| "py_truthy (PBool b) = b"
| "py_truthy PNone = False"

text \<open>\<^verbatim>\<open>scope.startswith(s)\<close>: only a \<^verbatim>\<open>str\<close> has the method, and its argument must be
  a \<^verbatim>\<open>str\<close>.\<close>

fun py_startswith :: "pyval \<Rightarrow> pyval \<Rightarrow> error + bool" where
  "py_startswith (PStr a) (PStr b) = Inr (prefix b a)"
| "py_startswith (PStr a) _ = Inl (TypeError ''startswith'')"
| "py_startswith _ _ = Inl (AttributeError ''startswith'')"

text \<open>\<^verbatim>\<open>"." in symbol\<close>: a \<^verbatim>\<open>bool\<close> or \<^verbatim>\<open>None\<close> is not a container.\<close>

fun py_contains_dot :: "pyval \<Rightarrow> error + bool" where
  "py_contains_dot (PStr s) = Inr (CHR ''.'' \<in> set s)"
| "py_contains_dot _ = Inl (TypeError ''in'')"

text \<open>The two dataclasses with fields of any value.\<close>

record py_ScalaImport =
  py_name :: pyval
  py_is_wildcard :: pyval

record py_analysis =
  py_provided_symbols :: "pyval list"
  py_provided_symbols_encoded :: "pyval list"
  py_imports_by_scope :: "(pyval, py_ScalaImport list) dict"
  py_consumed_symbols_by_scope :: "(pyval, pyval list) dict"
  py_scopes :: "pyval list"

text \<open>The filter of a comprehension whose condition can raise.\<close>

fun filter_raising :: "('a \<Rightarrow> error + bool) \<Rightarrow> 'a list \<Rightarrow> error + 'a list" where
  "filter_raising p [] = Inr []"
| "filter_raising p (x # xs) =
     (case p x of
        Inl e \<Rightarrow> Inl e
      | Inr b \<Rightarrow>
         (case filter_raising p xs of
            Inl e \<Rightarrow> Inl e
          | Inr ys \<Rightarrow> Inr (if b then x # ys else ys)))"

text \<open>
  The method, statement by statement as before. The set comprehension evaluates
  \<^verbatim>\<open>scope.startswith(s)\<close> once for every wildcard import of every scope of the
  dictionary; \<^verbatim>\<open>"." in symbol\<close> is evaluated only when \<^verbatim>\<open>self.scopes\<close> is not empty.
  When an exception is raised the result is the exception alone: the candidates that
  the generator yielded before it are not kept.
\<close>

definition wildcard_imports_by_scope_py ::
  "py_analysis \<Rightarrow> (pyval, py_ScalaImport list) dict" where
  "wildcard_imports_by_scope_py pa =
     fold (\<lambda>(scope, imports) acc.
             let wildcard_imports = filter (\<lambda>imp. py_truthy (py_is_wildcard imp)) imports
             in if wildcard_imports \<noteq> [] then dict_setitem acc scope wildcard_imports else acc)
          (py_imports_by_scope pa) []"

definition parent_scope_wildcards_inserted_py ::
  "(pyval, py_ScalaImport list) dict \<Rightarrow> pyval \<Rightarrow> error + py_ScalaImport list" where
  "parent_scope_wildcards_inserted_py wibs scope =
     (case tuple_of (\<lambda>(s, wildcard_imports).
                       filter_raising (\<lambda>wi. py_startswith scope s) wildcard_imports) wibs of
        Inl e \<Rightarrow> Inl e
      | Inr inserted \<Rightarrow> Inr (concat inserted))"

definition symbol_candidates_py ::
  "py_analysis \<Rightarrow> py_ScalaImport list \<Rightarrow> pyval \<Rightarrow> error + pyval list" where
  "symbol_candidates_py pa psw symbol =
     (case (if py_scopes pa = [] then Inr True else py_contains_dot symbol) of
        Inl e \<Rightarrow> Inl e
      | Inr bare \<Rightarrow>
          Inr (map (\<lambda>scope. PStr (py_str scope @ ''.'' @ py_str symbol)) (py_scopes pa) @
               (if bare then [symbol] else []) @
               map (\<lambda>wildcard_scope.
                      PStr (py_str (py_name wildcard_scope) @ ''.'' @ py_str symbol)) psw))"

definition scope_candidates_py ::
  "(py_ScalaImport list \<Rightarrow> py_ScalaImport list) \<Rightarrow> py_analysis \<Rightarrow>
   (pyval, py_ScalaImport list) dict \<Rightarrow> pyval \<times> pyval list \<Rightarrow> error + pyval list" where
  "scope_candidates_py set_iter pa wibs item =
     (case item of (scope, consumed_symbols) \<Rightarrow>
        (case parent_scope_wildcards_inserted_py wibs scope of
           Inl e \<Rightarrow> Inl e
         | Inr inserted \<Rightarrow>
            (case tuple_of (symbol_candidates_py pa (set_iter inserted)) consumed_symbols of
               Inl e \<Rightarrow> Inl e
             | Inr yielded \<Rightarrow> Inr (concat yielded))))"

definition fully_qualified_consumed_symbols_py ::
  "(py_ScalaImport list \<Rightarrow> py_ScalaImport list) \<Rightarrow> py_analysis \<Rightarrow> error + pyval list" where
  "fully_qualified_consumed_symbols_py set_iter pa =
     (case tuple_of (scope_candidates_py set_iter pa (wildcard_imports_by_scope_py pa))
             (py_consumed_symbols_by_scope pa) of
        Inl e \<Rightarrow> Inl e
      | Inr yielded \<Rightarrow> Inr (concat yielded))"

text \<open>
  A structurally valid analysis is one whose values have the annotated types: it is
  \<open>py_of_analysis a\<close> for an analysis \<open>a\<close> of the typed record.
\<close>

definition py_of_import :: "ScalaImport \<Rightarrow> py_ScalaImport" where
  "py_of_import imp = \<lparr> py_name = PStr (name imp), py_is_wildcard = PBool (is_wildcard imp) \<rparr>"

definition py_of_analysis :: "ScalaSourceDependencyAnalysis \<Rightarrow> py_analysis" where
  "py_of_analysis a =
     \<lparr> py_provided_symbols = map PStr (provided_symbols a),
       py_provided_symbols_encoded = map PStr (provided_symbols_encoded a),
       py_imports_by_scope =
         map (\<lambda>(scope, imports). (PStr scope, map py_of_import imports)) (imports_by_scope a),
       py_consumed_symbols_by_scope =
         map (\<lambda>(scope, symbols). (PStr scope, map PStr symbols)) (consumed_symbols_by_scope a),
       py_scopes = map PStr (scopes a) \<rparr>"

text \<open>Two analyses that are not structurally valid: \<^verbatim>\<open>None\<close> as a consumed symbol, and
  \<^verbatim>\<open>None\<close> as a consuming scope below a wildcard import.\<close>

definition null_symbol_analysis :: py_analysis where
  "null_symbol_analysis =
     \<lparr> py_provided_symbols = [], py_provided_symbols_encoded = [],
       py_imports_by_scope = [],
       py_consumed_symbols_by_scope = [(PStr ''com.foo'', [PNone])],
       py_scopes = [PStr ''com.foo''] \<rparr>"

definition null_scope_analysis :: py_analysis where
  "null_scope_analysis =
     \<lparr> py_provided_symbols = [], py_provided_symbols_encoded = [],
       py_imports_by_scope =
         [(PStr ''com.foo'', [\<lparr> py_name = PStr ''org.lib._'', py_is_wildcard = PBool True \<rparr>])],
       py_consumed_symbols_by_scope = [(PNone, [PStr ''Qux''])],
       py_scopes = [] \<rparr>"

section \<open>The analysis pipeline\<close>

text \<open>
  The two rules run inside the Pants engine. The types they exchange with it
  (\<^verbatim>\<open>pants.engine.fs\<close>, \<^verbatim>\<open>pants.engine.process\<close>, \<^verbatim>\<open>pants.jvm\<close>,
  \<^verbatim>\<open>pants.core.util_rules.source_files\<close>) are not among the sources; each is a record of
  the fields the rules read or write. Field names carry the name of their class where
  two classes share a field name. Byte strings are \<open>string\<close>. The rule reads both
  \<^verbatim>\<open>source_files.files\<close> and \<^verbatim>\<open>source_files.snapshot.files\<close>; they are two fields here,
  with no relation assumed between them.
\<close>

datatype Digest = Digest string nat

datatype LogLevel = TRACE | DEBUG | INFO | WARN | ERROR

type_synonym Coordinate = string

type_synonym ArtifactRequirements = "Coordinate list"

record Snapshot =
  snapshot_digest :: Digest
  snapshot_files :: "string list"

record SourceFiles =
  files :: "string list"
  snapshot :: Snapshot

record BashBinary =
  bash_path :: string

record JdkSetup =
  jdk_digest :: Digest
  jdk_args :: "BashBinary \<Rightarrow> string list \<Rightarrow> string list"
  jdk_append_only_caches :: "(string, string) dict"
  jdk_env :: "(string, string) dict"

record ScalaParserCompiledClassfiles =
  classfiles_digest :: Digest

record MaterializedClasspathRequest =
  prefix_dir :: string
  artifact_requirements :: "ArtifactRequirements list"

record MaterializedClasspath =
  classpath_digest :: Digest
  classpath_entries :: "string list"

record Process =
  argv :: "string list"
  input_digest :: Digest
  output_files :: "string list"
  use_nailgun :: Digest
  append_only_caches :: "(string, string) dict"
  env :: "(string, string) dict"
  description :: string
  level :: LogLevel

record FallibleProcessResult =
  exit_code :: int
  stdout :: string
  stderr :: string
  output_digest :: Digest

record FileContent =
  path :: string
  content :: string

record GlobalOptions =
  process_execution_local_cleanup :: bool

text \<open>\<^verbatim>\<open>@dataclass(frozen=True) class FallibleScalaSourceDependencyAnalysisResult\<close>\<close>

record FallibleScalaSourceDependencyAnalysisResult =
  process_result :: FallibleProcessResult

text \<open>
  Every \<^verbatim>\<open>await Get(...)\<close> is a request to the engine. The engine is a record of the
  answers it gives, and the requests a rule has issued are kept in a log, so that
  ``before the external tool is invoked'' can be stated: the tool runs when, and only
  when, a \<open>Process_request\<close> is issued.
\<close>

datatype request =
    MaterializedClasspath_request MaterializedClasspathRequest
  | AddPrefix Digest string
  | MergeDigests "Digest list"
  | Process_request Process
  | DigestContents_request Digest

record engine =
  get_materialized_classpath :: "MaterializedClasspathRequest \<Rightarrow> MaterializedClasspath"
  get_add_prefix :: "Digest \<Rightarrow> string \<Rightarrow> Digest"
  get_merge_digests :: "Digest list \<Rightarrow> Digest"
  get_fallible_process_result :: "Process \<Rightarrow> FallibleProcessResult"
  get_digest_contents :: "Digest \<Rightarrow> FileContent list"

definition SCALAMETA_DEPENDENCIES :: "Coordinate list" where
  "SCALAMETA_DEPENDENCIES =
     [''org.scalameta:scalameta_2.13:4.4.30'',
      ''org.scala-lang:scala-library:2.13.7'',
      ''com.thesamet.scalapb:scalapb-runtime_2.13:0.11.4'',
      ''org.scalameta:parsers_2.13:4.4.30'',
      ''org.scala-lang:scala-compiler:2.13.7'',
      ''net.java.dev.jna:jna:5.8.0'',
      ''org.scalameta:trees_2.13:4.4.30'',
      ''org.scalameta:common_2.13:4.4.30'',
      ''com.lihaoyi:sourcecode_2.13:0.2.7'',
      ''org.jline:jline:3.20.0'',
      ''org.scalameta:fastparse-v2_2.13:2.3.1'',
      ''org.scala-lang.modules:scala-collection-compat_2.13:2.4.4'',
      ''org.scala-lang:scalap:2.13.7'',
      ''org.scala-lang:scala-reflect:2.13.7'',
      ''com.google.protobuf:protobuf-java:3.15.8'',
      ''com.thesamet.scalapb:lenses_2.13:0.11.4'',
      ''com.lihaoyi:geny_2.13:0.6.5'']"

definition CIRCE_DEPENDENCIES :: "Coordinate list" where
  "CIRCE_DEPENDENCIES =
     [''io.circe:circe-generic_2.13:0.14.1'',
      ''org.typelevel:simulacrum-scalafix-annotations_2.13:0.5.4'',
      ''org.typelevel:cats-core_2.13:2.6.1'',
      ''org.scala-lang:scala-library:2.13.6'',
      ''io.circe:circe-numbers_2.13:0.14.1'',
      ''com.chuusai:shapeless_2.13:2.3.7'',
      ''io.circe:circe-core_2.13:0.14.1'',
      ''org.typelevel:cats-kernel_2.13:2.6.1'']"

definition SCALA_PARSER_ARTIFACT_REQUIREMENTS :: ArtifactRequirements where
  "SCALA_PARSER_ARTIFACT_REQUIREMENTS = SCALAMETA_DEPENDENCIES @ CIRCE_DEPENDENCIES"

text \<open>\<^verbatim>\<open>str(n)\<close> for a length.\<close>

fun string_of_nat :: "nat \<Rightarrow> string" where
  "string_of_nat n =
     (if n < 10 then [''0123456789'' ! n]
      else string_of_nat (n div 10) @ [''0123456789'' ! (n mod 10)])"

declare string_of_nat.simps [simp del]

text \<open>\<^verbatim>\<open>os.path.join(a, b)\<close> on POSIX paths.\<close>

definition os_path_join :: "string \<Rightarrow> string \<Rightarrow> string" where
  "os_path_join a b =
     (if prefix ''/'' b then b
      else if a = [] \<or> suffix ''/'' a then a @ b
      else a @ ''/'' @ b)"

text \<open>\<^verbatim>\<open>analyze_scala_source_dependencies\<close>. The three requests of the \<^verbatim>\<open>MultiGet\<close>
  are logged in the order they are written.\<close>

definition analyze_scala_source_dependencies ::
  "engine \<Rightarrow> BashBinary \<Rightarrow> JdkSetup \<Rightarrow> ScalaParserCompiledClassfiles \<Rightarrow> SourceFiles \<Rightarrow>
   request list \<Rightarrow> (error + FallibleScalaSourceDependencyAnalysisResult) \<times> request list" where
  "analyze_scala_source_dependencies eng bash jdk_setup processor_classfiles source_files log =
     (if length (files source_files) > 1 then
        (Inl (ValueError
           (''analyze_scala_source_dependencies expects sources with exactly 1 source file, but found ''
            @ string_of_nat (length (snapshot_files (snapshot source_files))) @ ''.'')), log)
      else if length (files source_files) = 0 then
        (Inl (ValueError
           ''analyze_scala_source_dependencies expects sources with exactly 1 source file, but found none.''),
         log)
      else
        let source_prefix = ''__source_to_analyze'';
            source_path = os_path_join source_prefix (files source_files ! 0);
            processorcp_relpath = ''__processorcp'';
            classpath_request = \<lparr> prefix_dir = ''__toolcp'',
                artifact_requirements = [SCALA_PARSER_ARTIFACT_REQUIREMENTS] \<rparr>;
            tool_classpath = get_materialized_classpath eng classpath_request;
            prefixed_processor_classfiles_digest =
              get_add_prefix eng (classfiles_digest processor_classfiles) processorcp_relpath;
            prefixed_source_files_digest =
              get_add_prefix eng (snapshot_digest (snapshot source_files)) source_prefix;
            log1 = log @ [MaterializedClasspath_request classpath_request,
                          AddPrefix (classfiles_digest processor_classfiles) processorcp_relpath,
                          AddPrefix (snapshot_digest (snapshot source_files)) source_prefix];
            tool_inputs = [prefixed_processor_classfiles_digest,
                           classpath_digest tool_classpath, jdk_digest jdk_setup];
            tool_digest = get_merge_digests eng tool_inputs;
            log2 = log1 @ [MergeDigests tool_inputs];
            merged_inputs = [tool_digest, prefixed_source_files_digest];
            merged_digest = get_merge_digests eng merged_inputs;
            log3 = log2 @ [MergeDigests merged_inputs];
            analysis_output_path = ''__source_analysis.json'';
            process =
              \<lparr> argv = jdk_args jdk_setup bash
                         (classpath_entries tool_classpath @ [processorcp_relpath]) @
                       [''org.pantsbuild.backend.scala.dependency_inference.ScalaParser'',
                        analysis_output_path, source_path],
                input_digest = merged_digest,
                output_files = [analysis_output_path],
                use_nailgun = tool_digest,
                append_only_caches = jdk_append_only_caches jdk_setup,
                env = jdk_env jdk_setup,
                description = ''Analyzing '' @ files source_files ! 0,
                level = DEBUG \<rparr>;
            result = get_fallible_process_result eng process
        in (Inr \<lparr> process_result = result \<rparr>, log3 @ [Process_request process]))"

text \<open>
  \<^verbatim>\<open>resolve_fallible_result_to_analysis\<close>. \<^verbatim>\<open>json.loads\<close> is the standard library's
  parser and a parameter here: it gives the transport record or raises.
\<close>

definition resolve_fallible_result_to_analysis ::
  "engine \<Rightarrow> (string \<Rightarrow> error + analysis_json) \<Rightarrow> FallibleScalaSourceDependencyAnalysisResult \<Rightarrow>
   GlobalOptions \<Rightarrow> request list \<Rightarrow>
   (error + ScalaSourceDependencyAnalysis) \<times> request list" where
  "resolve_fallible_result_to_analysis eng json_loads fallible_result global_options log =
     (if exit_code (process_result fallible_result) = 0 then
        let analysis_contents =
              get_digest_contents eng (output_digest (process_result fallible_result));
            log1 = log @ [DigestContents_request (output_digest (process_result fallible_result))]
        in (case analysis_contents of
              [] \<Rightarrow> (Inl IndexError, log1)
            | first # _ \<Rightarrow>
               (case json_loads (content first) of
                  Inl e \<Rightarrow> (Inl e, log1)
                | Inr analysis \<Rightarrow> (from_json_dict analysis, log1)))
      else
        (Inl (ProcessExecutionFailure
                (exit_code (process_result fallible_result))
                (stdout (process_result fallible_result))
                (stderr (process_result fallible_result))
                ''Scala source dependency analysis failed.''
                (process_execution_local_cleanup global_options)),
         log))"

text \<open>The pipeline: the engine feeds the result of the first rule to the second.\<close>

definition analysis_pipeline ::
  "engine \<Rightarrow> (string \<Rightarrow> error + analysis_json) \<Rightarrow> BashBinary \<Rightarrow> JdkSetup \<Rightarrow>
   ScalaParserCompiledClassfiles \<Rightarrow> SourceFiles \<Rightarrow> GlobalOptions \<Rightarrow> request list \<Rightarrow>
   (error + ScalaSourceDependencyAnalysis) \<times> request list" where
  "analysis_pipeline eng json_loads bash jdk_setup processor_classfiles source_files
     global_options log =
     (case analyze_scala_source_dependencies eng bash jdk_setup processor_classfiles
             source_files log of
        (Inl e, log') \<Rightarrow> (Inl e, log')
      | (Inr fallible_result, log') \<Rightarrow>
          resolve_fallible_result_to_analysis eng json_loads fallible_result global_options log')"

text \<open>The description of a raised \<^verbatim>\<open>ProcessExecutionFailure\<close>, and what it means for
  a description to name a file: the file's path occurs in it.\<close>

fun failure_description :: "error \<Rightarrow> string option" where
  "failure_description (ProcessExecutionFailure code out err descr cleanup) = Some descr"
| "failure_description _ = None"

definition names_file :: "string \<Rightarrow> string \<Rightarrow> bool" where
  "names_file descr file = sublist file descr"

text \<open>
  A concrete run: an engine whose parser process fails with exit code 1 whatever it is
  asked to analyse, a parser for \<^verbatim>\<open>json.loads\<close> that is never reached, and one source
  file.
\<close>

definition failing_engine :: engine where
  "failing_engine =
     \<lparr> get_materialized_classpath =
         (\<lambda>r. \<lparr> classpath_digest = Digest ''cp'' 1, classpath_entries = [''__toolcp/a.jar''] \<rparr>),
       get_add_prefix = (\<lambda>d p. d),
       get_merge_digests = (\<lambda>ds. Digest ''merged'' 1),
       get_fallible_process_result =
         (\<lambda>p. \<lparr> exit_code = 1, stdout = ''out'', stderr = ''parse error'',
                 output_digest = Digest ''empty'' 0 \<rparr>),
       get_digest_contents = (\<lambda>d. []) \<rparr>"

definition no_json :: "string \<Rightarrow> error + analysis_json" where
  "no_json s = Inl JSONDecodeError"

definition example_jdk :: JdkSetup where
  "example_jdk =
     \<lparr> jdk_digest = Digest ''jdk'' 1,
       jdk_args = (\<lambda>bash cp. [bash_path bash, ''__jdk.sh'', ''-cp''] @ cp),
       jdk_append_only_caches = [], jdk_env = [] \<rparr>"

definition example_sources :: "string list \<Rightarrow> SourceFiles" where
  "example_sources fs =
     \<lparr> files = fs, snapshot = \<lparr> snapshot_digest = Digest ''src'' 1, snapshot_files = fs \<rparr> \<rparr>"

section \<open>Properties of the resolver\<close>

lemma in_fully_qualified_consumed_symbols:
  assumes "(S, syms) \<in> set (consumed_symbols_by_scope a)" and "symbol \<in> set syms"
    and "c \<in> set (symbol_candidates a
                 (parent_scope_wildcards set_iter (wildcard_imports_by_scope a) S) symbol)"
  shows "c \<in> set (fully_qualified_consumed_symbols set_iter a)"
proof -
  from assms(2,3)
  have "c \<in> set (scope_candidates set_iter a (wildcard_imports_by_scope a) (S, syms))"
    by (auto simp: scope_candidates_def Let_def)
  with assms(1) show ?thesis
    by (auto simp: fully_qualified_consumed_symbols_def Let_def)
qed

lemma example_candidates:
  "fully_qualified_consumed_symbols set_iter example_analysis =
     ''com.foo.Bar.Qux'' #
     map (\<lambda>w. name w @ ''.Qux'') (set_iter [\<lparr> name = ''com.baz._'', is_wildcard = True \<rparr>])"
  by (simp add: fully_qualified_consumed_symbols_def scope_candidates_def
      symbol_candidates_def parent_scope_wildcards_def parent_scope_wildcards_inserted_def wildcard_imports_by_scope_def
      example_analysis_def)

subsection \<open>The dictionary of wildcard imports\<close>

lemma dict_setitem_new_key:
  "k \<notin> fst ` set d \<Longrightarrow> dict_setitem d k v = d @ [(k, v)]"
  by (induction d) auto

lemma wildcard_fold:
  assumes "distinct (map fst d)" and "fst ` set d \<inter> fst ` set acc = {}"
  shows "fold (\<lambda>(scope, imports) acc.
             let wildcard_imports = filter is_wildcard imports
             in if wildcard_imports \<noteq> [] then dict_setitem acc scope wildcard_imports else acc)
          d acc =
         acc @ filter (\<lambda>(k, v). v \<noteq> []) (map (\<lambda>(k, v). (k, filter is_wildcard v)) d)"
  using assms
proof (induction d arbitrary: acc)
  case Nil
  then show ?case by simp
next
  case (Cons p d)
  obtain k v where p: "p = (k, v)" by (cases p)
  show ?case
  proof (cases "filter is_wildcard v = []")
    case True
    with Cons p show ?thesis by auto
  next
    case False
    from Cons.prems p have knew: "k \<notin> fst ` set acc" by auto
    have "fst ` set d \<inter> fst ` set (acc @ [(k, filter is_wildcard v)]) = {}"
      using Cons.prems p by auto
    with Cons.IH [of "acc @ [(k, filter is_wildcard v)]"] Cons.prems p False knew
    show ?thesis by (simp add: dict_setitem_new_key Let_def)
  qed
qed

lemma wildcard_imports_by_scope_wf:
  "wf_dict (imports_by_scope a) \<Longrightarrow>
   wildcard_imports_by_scope a =
     filter (\<lambda>(k, v). v \<noteq> []) (map (\<lambda>(k, v). (k, filter is_wildcard v)) (imports_by_scope a))"
  using wildcard_fold [of "imports_by_scope a" "[]"]
  by (simp add: wildcard_imports_by_scope_def wf_dict_def)

lemma set_parent_scope_wildcards:
  assumes "is_set_iteration set_iter" and "wf_dict (imports_by_scope a)"
  shows "set (parent_scope_wildcards set_iter (wildcard_imports_by_scope a) S) =
         {w. \<exists>A imps. (A, imps) \<in> set (imports_by_scope a) \<and> w \<in> set imps \<and>
                      is_wildcard w \<and> prefix A S}"
proof -
  have "set (parent_scope_wildcards set_iter (wildcard_imports_by_scope a) S) =
        set (concat (map (\<lambda>(s, wildcard_imports). filter (\<lambda>wi. prefix s S) wildcard_imports)
               (wildcard_imports_by_scope a)))"
    using assms(1) by (simp add: parent_scope_wildcards_def parent_scope_wildcards_inserted_def is_set_iteration_def)
  also have "\<dots> = {w. \<exists>A imps. (A, imps) \<in> set (imports_by_scope a) \<and> w \<in> set imps \<and>
                      is_wildcard w \<and> prefix A S}"
    unfolding wildcard_imports_by_scope_wf [OF assms(2)]
    by (auto simp: filter_empty_conv) blast+
  finally show ?thesis .
qed

lemma wildcard_candidate_member:
  assumes "is_set_iteration set_iter" and "wf_dict (imports_by_scope a)"
    and "(S, syms) \<in> set (consumed_symbols_by_scope a)" and "symbol \<in> set syms"
    and "(A, imps) \<in> set (imports_by_scope a)" and "w \<in> set imps" and "is_wildcard w"
    and "prefix A S"
  shows "name w @ ''.'' @ symbol \<in> set (fully_qualified_consumed_symbols set_iter a)"
proof -
  have "w \<in> set (parent_scope_wildcards set_iter (wildcard_imports_by_scope a) S)"
    unfolding set_parent_scope_wildcards [OF assms(1,2)] using assms(5-8) by blast
  then have "name w @ ''.'' @ symbol \<in> set (symbol_candidates a
               (parent_scope_wildcards set_iter (wildcard_imports_by_scope a) S) symbol)"
    by (simp add: symbol_candidates_def)
  with assms(3,4) show ?thesis by (rule in_fully_qualified_consumed_symbols)
qed

lemma remdups_is_set_iteration: "is_set_iteration remdups"
  by (simp add: is_set_iteration_def)

text \<open>
  Claim C1 (over-approximation). Let \<open>S\<close> be a scope with consumed symbols and \<open>symbol\<close>
  one of them. If some scope \<open>A\<close> of \<open>imports_by_scope\<close> has a wildcard import \<open>w\<close> and
  \<open>S\<close> starts with \<open>A\<close>, then \<open>name w @ ''.'' @ symbol\<close> is among the candidates, in
  whatever order the set of parent wildcards is iterated.
\<close>

theorem wildcard_over_approximation:
  assumes "is_set_iteration set_iter" and "wf_dict (imports_by_scope a)"
    and "(S, syms) \<in> set (consumed_symbols_by_scope a)" and "symbol \<in> set syms"
    and "(A, imps) \<in> set (imports_by_scope a)" and "w \<in> set imps" and "is_wildcard w"
    and "prefix A S"
  shows "name w @ ''.'' @ symbol \<in> set (fully_qualified_consumed_symbols set_iter a)"
  using assms by (rule wildcard_candidate_member)

theorem wildcard_over_approximation_witness:
  "is_set_iteration remdups \<and> wf_dict (imports_by_scope example_analysis) \<and>
   (''com.foo.Bar'', [''Qux'']) \<in> set (consumed_symbols_by_scope example_analysis) \<and>
   (''com.foo.Bar'', [\<lparr> name = ''com.baz._'', is_wildcard = True \<rparr>])
      \<in> set (imports_by_scope example_analysis) \<and>
   prefix ''com.foo.Bar'' ''com.foo.Bar'' \<and>
   ''com.baz._.Qux'' \<in> set (fully_qualified_consumed_symbols remdups example_analysis)"
proof -
  have h1: "wf_dict (imports_by_scope example_analysis)"
    by (simp add: wf_dict_def example_analysis_def)
  have h2: "(''com.foo.Bar'', [''Qux'']) \<in> set (consumed_symbols_by_scope example_analysis)"
    by (simp add: example_analysis_def)
  have h3: "(''com.foo.Bar'', [\<lparr> name = ''com.baz._'', is_wildcard = True \<rparr>])
      \<in> set (imports_by_scope example_analysis)"
    by (simp add: example_analysis_def)
  have h4: "prefix ''com.foo.Bar'' ''com.foo.Bar''" by simp
  from wildcard_over_approximation [OF remdups_is_set_iteration h1 h2 _ h3 _ _ h4,
      of "''Qux''" "\<lparr> name = ''com.baz._'', is_wildcard = True \<rparr>"]
  have "''com.baz._.Qux'' \<in> set (fully_qualified_consumed_symbols remdups example_analysis)"
    by simp
  with remdups_is_set_iteration h1 h2 h3 h4 show ?thesis by blast
qed

lemma set_symbol_candidates:
  "set (symbol_candidates a psw symbol) =
     {T @ ''.'' @ symbol | T. T \<in> set (scopes a)} \<union>
     {c. c = symbol \<and> (scopes a = [] \<or> CHR ''.'' \<in> set symbol)} \<union>
     {name w @ ''.'' @ symbol | w. w \<in> set psw}"
  by (auto simp: symbol_candidates_def)

lemma set_scope_candidates:
  assumes "is_set_iteration set_iter" and "wf_dict (imports_by_scope a)"
  shows "set (scope_candidates set_iter a (wildcard_imports_by_scope a) (S, syms)) =
     (\<Union>symbol \<in> set syms.
        {T @ ''.'' @ symbol | T. T \<in> set (scopes a)} \<union>
        {c. c = symbol \<and> (scopes a = [] \<or> CHR ''.'' \<in> set symbol)} \<union>
        {name w @ ''.'' @ symbol | w. \<exists>A imps. (A, imps) \<in> set (imports_by_scope a) \<and>
                                         w \<in> set imps \<and> is_wildcard w \<and> prefix A S})"
  by (simp add: scope_candidates_def Let_def set_symbol_candidates
      set_parent_scope_wildcards [OF assms])

text \<open>
  Claim C2 (textual prefix). What is emitted for a consuming scope \<open>S\<close> is exactly this:
  for each of its symbols the symbol qualified by every scope of the file, the bare
  symbol under the condition of the source, and the symbol qualified by the wildcard
  imports of exactly those scopes \<open>A\<close> of \<open>imports_by_scope\<close> that are a string prefix
  of \<open>S\<close>. Nothing else is emitted, for one scope and for the whole file, and no dot
  boundary is looked at: a wildcard import \<open>w\<close> of scope \<open>com.foo\<close> qualifies every
  symbol consumed in scope \<open>com.foobar\<close>.
\<close>

theorem textual_prefix_matching:
  assumes "is_set_iteration set_iter" and "wf_dict (imports_by_scope a)"
  shows "set (scope_candidates set_iter a (wildcard_imports_by_scope a) (S, syms)) =
           (\<Union>symbol \<in> set syms.
              {T @ ''.'' @ symbol | T. T \<in> set (scopes a)} \<union>
              {c. c = symbol \<and> (scopes a = [] \<or> CHR ''.'' \<in> set symbol)} \<union>
              {name w @ ''.'' @ symbol | w. \<exists>A imps. (A, imps) \<in> set (imports_by_scope a) \<and>
                                               w \<in> set imps \<and> is_wildcard w \<and> prefix A S}) \<and>
         set (fully_qualified_consumed_symbols set_iter a) =
           (\<Union>(S, syms) \<in> set (consumed_symbols_by_scope a). \<Union>symbol \<in> set syms.
              {T @ ''.'' @ symbol | T. T \<in> set (scopes a)} \<union>
              {c. c = symbol \<and> (scopes a = [] \<or> CHR ''.'' \<in> set symbol)} \<union>
              {name w @ ''.'' @ symbol | w. \<exists>A imps. (A, imps) \<in> set (imports_by_scope a) \<and>
                                               w \<in> set imps \<and> is_wildcard w \<and> prefix A S}) \<and>
         set (parent_scope_wildcards set_iter (wildcard_imports_by_scope a) S) =
           {w. \<exists>A imps. (A, imps) \<in> set (imports_by_scope a) \<and> w \<in> set imps \<and>
                        is_wildcard w \<and> prefix A S} \<and>
         ((''com.foo'', imps) \<in> set (imports_by_scope a) \<longrightarrow> w \<in> set imps \<longrightarrow>
          is_wildcard w \<longrightarrow> (''com.foobar'', syms') \<in> set (consumed_symbols_by_scope a) \<longrightarrow>
          symbol \<in> set syms' \<longrightarrow>
          name w @ ''.'' @ symbol \<in> set (fully_qualified_consumed_symbols set_iter a))"
proof (intro conjI impI)
  show "set (scope_candidates set_iter a (wildcard_imports_by_scope a) (S, syms)) =
           (\<Union>symbol \<in> set syms.
              {T @ ''.'' @ symbol | T. T \<in> set (scopes a)} \<union>
              {c. c = symbol \<and> (scopes a = [] \<or> CHR ''.'' \<in> set symbol)} \<union>
              {name w @ ''.'' @ symbol | w. \<exists>A imps. (A, imps) \<in> set (imports_by_scope a) \<and>
                                               w \<in> set imps \<and> is_wildcard w \<and> prefix A S})"
    using assms by (rule set_scope_candidates)
next
  have "set (fully_qualified_consumed_symbols set_iter a) =
      (\<Union>item \<in> set (consumed_symbols_by_scope a).
         set (scope_candidates set_iter a (wildcard_imports_by_scope a) item))"
    by (simp add: fully_qualified_consumed_symbols_def Let_def)
  also have "\<dots> = (\<Union>(S, syms) \<in> set (consumed_symbols_by_scope a). \<Union>symbol \<in> set syms.
              {T @ ''.'' @ symbol | T. T \<in> set (scopes a)} \<union>
              {c. c = symbol \<and> (scopes a = [] \<or> CHR ''.'' \<in> set symbol)} \<union>
              {name w @ ''.'' @ symbol | w. \<exists>A imps. (A, imps) \<in> set (imports_by_scope a) \<and>
                                               w \<in> set imps \<and> is_wildcard w \<and> prefix A S})"
  proof (intro SUP_cong refl)
    fix item assume "item \<in> set (consumed_symbols_by_scope a)"
    obtain S' syms' where item: "item = (S', syms')" by (cases item)
    show "set (scope_candidates set_iter a (wildcard_imports_by_scope a) item) =
        (case item of (S, syms) \<Rightarrow> \<Union>symbol \<in> set syms.
              {T @ ''.'' @ symbol | T. T \<in> set (scopes a)} \<union>
              {c. c = symbol \<and> (scopes a = [] \<or> CHR ''.'' \<in> set symbol)} \<union>
              {name w @ ''.'' @ symbol | w. \<exists>A imps. (A, imps) \<in> set (imports_by_scope a) \<and>
                                               w \<in> set imps \<and> is_wildcard w \<and> prefix A S})"
      unfolding item prod.case by (rule set_scope_candidates [OF assms])
  qed
  finally show "set (fully_qualified_consumed_symbols set_iter a) =
           (\<Union>(S, syms) \<in> set (consumed_symbols_by_scope a). \<Union>symbol \<in> set syms.
              {T @ ''.'' @ symbol | T. T \<in> set (scopes a)} \<union>
              {c. c = symbol \<and> (scopes a = [] \<or> CHR ''.'' \<in> set symbol)} \<union>
              {name w @ ''.'' @ symbol | w. \<exists>A imps. (A, imps) \<in> set (imports_by_scope a) \<and>
                                               w \<in> set imps \<and> is_wildcard w \<and> prefix A S})" .
next
  show "set (parent_scope_wildcards set_iter (wildcard_imports_by_scope a) S) =
           {w. \<exists>A imps. (A, imps) \<in> set (imports_by_scope a) \<and> w \<in> set imps \<and>
                        is_wildcard w \<and> prefix A S}"
    using assms by (rule set_parent_scope_wildcards)
next
  assume "(''com.foo'', imps) \<in> set (imports_by_scope a)" "w \<in> set imps" "is_wildcard w"
    "(''com.foobar'', syms') \<in> set (consumed_symbols_by_scope a)" "symbol \<in> set syms'"
  moreover have "prefix ''com.foo'' ''com.foobar''" by simp
  ultimately show "name w @ ''.'' @ symbol \<in> set (fully_qualified_consumed_symbols set_iter a)"
    using assms wildcard_candidate_member by blast
qed

lemma prefix_caveat_candidates:
  "fully_qualified_consumed_symbols remdups prefix_caveat_analysis =
     [''com.foo.Widget'', ''com.foobar.Widget'', ''org.other.Widget'', ''org.lib._.Widget'',
      ''com.foo.Gadget'', ''com.foobar.Gadget'', ''org.other.Gadget'']"
  by (simp add: fully_qualified_consumed_symbols_def scope_candidates_def
      symbol_candidates_def parent_scope_wildcards_def parent_scope_wildcards_inserted_def
      wildcard_imports_by_scope_def prefix_caveat_analysis_def)

theorem textual_prefix_matching_witness:
  "is_set_iteration remdups \<and> wf_dict (imports_by_scope prefix_caveat_analysis) \<and>
   set (parent_scope_wildcards remdups (wildcard_imports_by_scope prefix_caveat_analysis)
          ''com.foobar'') = {\<lparr> name = ''org.lib._'', is_wildcard = True \<rparr>} \<and>
   set (parent_scope_wildcards remdups (wildcard_imports_by_scope prefix_caveat_analysis)
          ''org.other'') = {} \<and>
   ''org.lib._.Widget'' \<in> set (fully_qualified_consumed_symbols remdups prefix_caveat_analysis) \<and>
   ''org.lib._.Gadget'' \<notin> set (fully_qualified_consumed_symbols remdups prefix_caveat_analysis)"
proof -
  have h1: "wf_dict (imports_by_scope prefix_caveat_analysis)"
    by (simp add: wf_dict_def prefix_caveat_analysis_def)
  note t = textual_prefix_matching [OF remdups_is_set_iteration h1, of _ _
      "[\<lparr> name = ''org.lib._'', is_wildcard = True \<rparr>]"
      "\<lparr> name = ''org.lib._'', is_wildcard = True \<rparr>" "[''Widget'']" "''Widget''"]
  have w: "{w. \<exists>A imps. (A, imps) \<in> set (imports_by_scope prefix_caveat_analysis) \<and> w \<in> set imps \<and>
                        is_wildcard w \<and> prefix A ''com.foobar''} =
        {\<lparr> name = ''org.lib._'', is_wildcard = True \<rparr>}"
    by (auto simp: prefix_caveat_analysis_def)
  have g: "{w. \<exists>A imps. (A, imps) \<in> set (imports_by_scope prefix_caveat_analysis) \<and> w \<in> set imps \<and>
                        is_wildcard w \<and> prefix A ''org.other''} = {}"
    by (auto simp: prefix_caveat_analysis_def)
  from t [of "''com.foobar''"] w
  have c1: "set (parent_scope_wildcards remdups (wildcard_imports_by_scope prefix_caveat_analysis)
          ''com.foobar'') = {\<lparr> name = ''org.lib._'', is_wildcard = True \<rparr>}"
    by simp
  from t [of "''org.other''"] g
  have c2: "set (parent_scope_wildcards remdups (wildcard_imports_by_scope prefix_caveat_analysis)
          ''org.other'') = {}"
    by simp
  from t [of "''com.foobar''"]
  have c3: "''org.lib._.Widget'' \<in>
      set (fully_qualified_consumed_symbols remdups prefix_caveat_analysis)"
    by (simp add: prefix_caveat_analysis_def)
  have c4: "''org.lib._.Gadget'' \<notin>
      set (fully_qualified_consumed_symbols remdups prefix_caveat_analysis)"
    by (simp add: prefix_caveat_candidates)
  from remdups_is_set_iteration h1 c1 c2 c3 c4 show ?thesis by blast
qed

text \<open>
  Claim C4 (qualification by every scope). For every consumed symbol, in whichever scope
  it is consumed, and every scope \<open>T\<close> of \<open>scopes\<close>, the candidates contain
  \<open>T @ ''.'' @ symbol\<close>. The analysis of the example yields both \<open>com.foo.Bar.Qux\<close> and
  \<open>com.baz._.Qux\<close>.
\<close>

theorem scope_qualified_candidates:
  "((S, syms) \<in> set (consumed_symbols_by_scope a) \<longrightarrow> symbol \<in> set syms \<longrightarrow>
    T \<in> set (scopes a) \<longrightarrow>
    T @ ''.'' @ symbol \<in> set (fully_qualified_consumed_symbols set_iter a)) \<and>
   (is_set_iteration set_iter \<longrightarrow>
    ''com.foo.Bar.Qux'' \<in> set (fully_qualified_consumed_symbols set_iter example_analysis) \<and>
    ''com.baz._.Qux'' \<in> set (fully_qualified_consumed_symbols set_iter example_analysis))"
proof (intro conjI impI)
  assume S: "(S, syms) \<in> set (consumed_symbols_by_scope a)" "symbol \<in> set syms"
    and T: "T \<in> set (scopes a)"
  from T have "T @ ''.'' @ symbol \<in> set (symbol_candidates a
      (parent_scope_wildcards set_iter (wildcard_imports_by_scope a) S) symbol)"
    by (simp add: symbol_candidates_def)
  with S show "T @ ''.'' @ symbol \<in> set (fully_qualified_consumed_symbols set_iter a)"
    by (rule in_fully_qualified_consumed_symbols)
next
  show "''com.foo.Bar.Qux'' \<in> set (fully_qualified_consumed_symbols set_iter example_analysis)"
    by (simp add: example_candidates)
next
  assume "is_set_iteration set_iter"
  then have "set (set_iter [\<lparr> name = ''com.baz._'', is_wildcard = True \<rparr>]) =
             {\<lparr> name = ''com.baz._'', is_wildcard = True \<rparr>}"
    by (simp add: is_set_iteration_def)
  then show "''com.baz._.Qux'' \<in> set (fully_qualified_consumed_symbols set_iter example_analysis)"
    by (simp add: example_candidates)
qed

theorem scope_qualified_candidates_witness:
  "(''com.foo'', [''scala.Int'', ''Bar'']) \<in> set (consumed_symbols_by_scope dotted_symbol_analysis) \<and>
   ''com.foo'' \<in> set (scopes dotted_symbol_analysis) \<and> is_set_iteration remdups \<and>
   ''com.foo.Bar'' \<in> set (fully_qualified_consumed_symbols remdups dotted_symbol_analysis) \<and>
   ''com.foo.Bar.Qux'' \<in> set (fully_qualified_consumed_symbols remdups example_analysis) \<and>
   ''com.baz._.Qux'' \<in> set (fully_qualified_consumed_symbols remdups example_analysis)"
  using scope_qualified_candidates [of "''com.foo''" "[''scala.Int'', ''Bar'']"
      dotted_symbol_analysis "''Bar''" "''com.foo''" remdups]
  by (simp add: dotted_symbol_analysis_def is_set_iteration_def)

text \<open>
  Claim C5 (bare symbol). If \<open>scopes\<close> is empty or the consumed symbol contains a dot,
  the symbol itself is among the candidates.
\<close>

theorem bare_symbol_fallback:
  assumes "(S, syms) \<in> set (consumed_symbols_by_scope a)" and "symbol \<in> set syms"
    and "scopes a = [] \<or> CHR ''.'' \<in> set symbol"
  shows "symbol \<in> set (fully_qualified_consumed_symbols set_iter a)"
proof -
  from assms(3) have "symbol \<in> set (symbol_candidates a
      (parent_scope_wildcards set_iter (wildcard_imports_by_scope a) S) symbol)"
    by (auto simp: symbol_candidates_def)
  with assms(1,2) show ?thesis by (rule in_fully_qualified_consumed_symbols)
qed

theorem bare_symbol_fallback_witness:
  "(''com.foo'', [''scala.Int'', ''Bar'']) \<in> set (consumed_symbols_by_scope dotted_symbol_analysis) \<and>
   scopes dotted_symbol_analysis \<noteq> [] \<and> CHR ''.'' \<in> set ''scala.Int'' \<and>
   ''scala.Int'' \<in> set (fully_qualified_consumed_symbols remdups dotted_symbol_analysis) \<and>
   ([], [''Foo'', ''Bar'']) \<in> set (consumed_symbols_by_scope no_scopes_analysis) \<and>
   scopes no_scopes_analysis = [] \<and> CHR ''.'' \<notin> set ''Foo'' \<and>
   ''Foo'' \<in> set (fully_qualified_consumed_symbols remdups no_scopes_analysis)"
  using bare_symbol_fallback [of "''com.foo''" "[''scala.Int'', ''Bar'']" dotted_symbol_analysis
      "''scala.Int''" remdups]
    bare_symbol_fallback [of "[]" "[''Foo'', ''Bar'']" no_scopes_analysis "''Foo''" remdups]
  by (simp add: dotted_symbol_analysis_def no_scopes_analysis_def)

subsection \<open>The generator\<close>


lemma run_generator_Generator:
  "run_generator n (Generator xs) = (if length xs < n then Some xs else None)"
proof (induction n arbitrary: xs)
  case 0
  show ?case by simp
next
  case (Suc n)
  show ?case by (cases xs) (simp_all add: Suc)
qed

lemma length_fully_qualified_consumed_symbols:
  "length (fully_qualified_consumed_symbols set_iter a) =
     (\<Sum>(scope, consumed_symbols) \<leftarrow> consumed_symbols_by_scope a.
        \<Sum>symbol \<leftarrow> consumed_symbols.
          length (scopes a) + (if scopes a = [] \<or> CHR ''.'' \<in> set symbol then 1 else 0) +
          length (parent_scope_wildcards set_iter (wildcard_imports_by_scope a) scope))"
proof -
  have "length (if b then [x] else []) = (if b then 1 else 0)" for b and x :: string
    by simp
  then show ?thesis
    by (simp add: fully_qualified_consumed_symbols_def scope_candidates_def
        symbol_candidates_def Let_def length_concat comp_def case_prod_unfold add.assoc)
qed











subsection \<open>Unchecked values\<close>

lemma dict_setitem_map_keys:
  "dict_setitem (map (\<lambda>(k, v). (PStr k, f v)) acc) (PStr k) (f v) =
   map (\<lambda>(k, v). (PStr k, f v)) (dict_setitem acc k v)"
  by (induction acc) auto

lemma filter_py_of_import:
  "filter (\<lambda>imp. py_truthy (py_is_wildcard imp)) (map py_of_import imps) =
   map py_of_import (filter is_wildcard imps)"
  by (induction imps) (simp_all add: py_of_import_def)

lemma wildcard_fold_py:
  "fold (\<lambda>(scope, imports) acc.
             let wildcard_imports = filter (\<lambda>imp. py_truthy (py_is_wildcard imp)) imports
             in if wildcard_imports \<noteq> [] then dict_setitem acc scope wildcard_imports else acc)
     (map (\<lambda>(scope, imports). (PStr scope, map py_of_import imports)) d)
     (map (\<lambda>(k, v). (PStr k, map py_of_import v)) acc) =
   map (\<lambda>(k, v). (PStr k, map py_of_import v))
     (fold (\<lambda>(scope, imports) acc.
             let wildcard_imports = filter is_wildcard imports
             in if wildcard_imports \<noteq> [] then dict_setitem acc scope wildcard_imports else acc)
        d acc)"
proof (induction d arbitrary: acc)
  case Nil
  show ?case by simp
next
  case (Cons p d)
  obtain k v where p: "p = (k, v)" by (cases p)
  show ?case
  proof (cases "filter is_wildcard v = []")
    case True
    with Cons.IH [of acc] p show ?thesis by (simp add: filter_py_of_import)
  next
    case False
    with Cons.IH [of "dict_setitem acc k (filter is_wildcard v)"] p show ?thesis
      by (simp add: filter_py_of_import dict_setitem_map_keys)
  qed
qed

lemma wildcard_imports_by_scope_py_of:
  "wildcard_imports_by_scope_py (py_of_analysis a) =
   map (\<lambda>(k, v). (PStr k, map py_of_import v)) (wildcard_imports_by_scope a)"
  using wildcard_fold_py [of "imports_by_scope a" "[]"]
  by (simp add: wildcard_imports_by_scope_py_def wildcard_imports_by_scope_def py_of_analysis_def)

lemma filter_raising_const: "filter_raising (\<lambda>x. Inr b) xs = Inr (filter (\<lambda>x. b) xs)"
  by (induction xs) simp_all

lemma parent_scope_wildcards_inserted_py_of:
  "parent_scope_wildcards_inserted_py (map (\<lambda>(k, v). (PStr k, map py_of_import v)) wibs)
     (PStr scope) =
   Inr (map py_of_import (parent_scope_wildcards_inserted wibs scope))"
proof -
  have "tuple_of (\<lambda>(s, wildcard_imports).
            filter_raising (\<lambda>wi. py_startswith (PStr scope) s) wildcard_imports)
          (map (\<lambda>(k, v). (PStr k, map py_of_import v)) wibs) =
        Inr (map (\<lambda>(s, wis). map py_of_import (filter (\<lambda>wi. prefix s scope) wis)) wibs)"
    by (induction wibs) (auto simp: filter_raising_const filter_map comp_def)
  then show ?thesis
    by (simp add: parent_scope_wildcards_inserted_py_def parent_scope_wildcards_inserted_def
        map_concat comp_def case_prod_unfold)
qed

lemma symbol_candidates_py_total:
  "\<exists>ys. symbol_candidates_py (py_of_analysis a) psw (PStr symbol) = Inr ys"
  by (simp add: symbol_candidates_py_def)

lemma symbol_candidates_py_of:
  "symbol_candidates_py (py_of_analysis a) (map py_of_import psw) (PStr symbol) =
   Inr (map PStr (symbol_candidates a psw symbol))"
  by (simp add: symbol_candidates_py_def symbol_candidates_def py_of_analysis_def
      py_of_import_def comp_def)

lemma tuple_of_total:
  "(\<And>x. x \<in> set xs \<Longrightarrow> \<exists>y. f x = Inr y) \<Longrightarrow> \<exists>ys. tuple_of f xs = Inr ys"
proof (induction xs)
  case Nil
  show ?case by simp
next
  case (Cons x xs)
  from Cons.prems [of x] obtain y where "f x = Inr y" by auto
  moreover from Cons have "\<exists>ys. tuple_of f xs = Inr ys" by simp
  ultimately show ?case by auto
qed

lemma scope_candidates_py_total:
  "\<exists>ys. scope_candidates_py set_iter (py_of_analysis a)
          (map (\<lambda>(k, v). (PStr k, map py_of_import v)) wibs) (PStr S, map PStr syms) = Inr ys"
proof -
  let ?psw = "set_iter (map py_of_import (parent_scope_wildcards_inserted wibs S))"
  have "\<exists>yss. tuple_of (symbol_candidates_py (py_of_analysis a) ?psw) (map PStr syms) = Inr yss"
    by (rule tuple_of_total) (auto simp: symbol_candidates_py_total)
  then obtain yss where
    "tuple_of (symbol_candidates_py (py_of_analysis a) ?psw) (map PStr syms) = Inr yss" ..
  then show ?thesis
    by (simp add: scope_candidates_py_def parent_scope_wildcards_inserted_py_of)
qed

lemma scope_candidates_py_of:
  assumes "\<And>xs. set_iter_py (map py_of_import xs) = map py_of_import (set_iter xs)"
  shows "scope_candidates_py set_iter_py (py_of_analysis a)
          (map (\<lambda>(k, v). (PStr k, map py_of_import v)) wibs) (PStr S, map PStr syms) =
         Inr (map PStr (scope_candidates set_iter a wibs (S, syms)))"
proof -
  have "tuple_of (symbol_candidates_py (py_of_analysis a) (map py_of_import psw)) (map PStr syms) =
        Inr (map (\<lambda>symbol. map PStr (symbol_candidates a psw symbol)) syms)" for psw
    by (induction syms) (simp_all add: symbol_candidates_py_of)
  then show ?thesis
    by (simp add: scope_candidates_py_def parent_scope_wildcards_inserted_py_of assms
        scope_candidates_def parent_scope_wildcards_def Let_def map_concat comp_def)
qed

lemma fully_qualified_consumed_symbols_py_total:
  "\<exists>ys. fully_qualified_consumed_symbols_py set_iter_py (py_of_analysis a) = Inr ys"
proof -
  have items: "py_consumed_symbols_by_scope (py_of_analysis a) =
      map (\<lambda>(scope, symbols). (PStr scope, map PStr symbols)) (consumed_symbols_by_scope a)"
    by (simp add: py_of_analysis_def)
  have "\<exists>yss. tuple_of (scope_candidates_py set_iter_py (py_of_analysis a)
              (wildcard_imports_by_scope_py (py_of_analysis a)))
          (py_consumed_symbols_by_scope (py_of_analysis a)) = Inr yss"
    unfolding wildcard_imports_by_scope_py_of items
  proof (rule tuple_of_total)
    fix item
    assume "item \<in> set (map (\<lambda>(scope, symbols). (PStr scope, map PStr symbols))
                         (consumed_symbols_by_scope a))"
    then obtain S syms where "item = (PStr S, map PStr syms)" by auto
    then show "\<exists>ys. scope_candidates_py set_iter_py (py_of_analysis a)
          (map (\<lambda>(k, v). (PStr k, map py_of_import v)) (wildcard_imports_by_scope a)) item =
          Inr ys"
      by (simp add: scope_candidates_py_total)
  qed
  then obtain yss where "tuple_of (scope_candidates_py set_iter_py (py_of_analysis a)
              (wildcard_imports_by_scope_py (py_of_analysis a)))
          (py_consumed_symbols_by_scope (py_of_analysis a)) = Inr yss" ..
  then show ?thesis by (simp add: fully_qualified_consumed_symbols_py_def)
qed

lemma fully_qualified_consumed_symbols_py_of:
  assumes "\<And>xs. set_iter_py (map py_of_import xs) = map py_of_import (set_iter xs)"
  shows "fully_qualified_consumed_symbols_py set_iter_py (py_of_analysis a) =
         Inr (map PStr (fully_qualified_consumed_symbols set_iter a))"
proof -
  have "tuple_of (scope_candidates_py set_iter_py (py_of_analysis a)
              (map (\<lambda>(k, v). (PStr k, map py_of_import v)) wibs))
          (map (\<lambda>(scope, symbols). (PStr scope, map PStr symbols)) items) =
        Inr (map (\<lambda>item. map PStr (scope_candidates set_iter a wibs item)) items)" for wibs items
    using scope_candidates_py_of [of set_iter_py set_iter a, OF assms]
    by (induction items) auto
  then show ?thesis
    by (simp add: fully_qualified_consumed_symbols_py_def wildcard_imports_by_scope_py_of
        fully_qualified_consumed_symbols_def Let_def map_concat comp_def)
      (simp add: py_of_analysis_def)
qed

lemma null_symbol_raises:
  "fully_qualified_consumed_symbols_py set_iter_py null_symbol_analysis = Inl (TypeError ''in'')"
  by (simp add: fully_qualified_consumed_symbols_py_def scope_candidates_py_def
      symbol_candidates_py_def parent_scope_wildcards_inserted_py_def
      wildcard_imports_by_scope_py_def null_symbol_analysis_def)

lemma null_scope_raises:
  "fully_qualified_consumed_symbols_py set_iter_py null_scope_analysis =
     Inl (AttributeError ''startswith'')"
  by (simp add: fully_qualified_consumed_symbols_py_def scope_candidates_py_def
      symbol_candidates_py_def parent_scope_wildcards_inserted_py_def
      wildcard_imports_by_scope_py_def null_scope_analysis_def)


lemma remdups_py_of_import:
  "remdups (map py_of_import xs) = map py_of_import (remdups xs)"
proof -
  have "inj py_of_import"
    by (rule injI) (simp add: py_of_import_def)
  then have "py_of_import x \<in> py_of_import ` A \<longleftrightarrow> x \<in> A" for x A
    by (rule inj_image_mem_iff)
  then show ?thesis by (induction xs) simp_all
qed

text \<open>
  Claim C8 (totality). On every structurally valid analysis, and for every iteration
  order of the set of parent wildcards, the resolver over unchecked values returns
  candidates and raises no exception; when the iteration order is the one of the typed
  resolver, the candidates are those of the typed resolver. The generator reaches
  \<^verbatim>\<open>StopIteration\<close> after one call of \<^verbatim>\<open>next\<close> per candidate and one more: the
  candidates are a finite list whose length is the sum, over the consumed symbols, of
  the number of scopes, one for a bare symbol, and the number of parent wildcards. With
  no consumed symbol there is no candidate; with neither scopes nor imports the
  candidates are the consumed symbols themselves.
\<close>

theorem resolver_total:
  "(\<exists>ys. fully_qualified_consumed_symbols_py set_iter_py (py_of_analysis a) = Inr ys) \<and>
   ((\<forall>xs. set_iter_py (map py_of_import xs) = map py_of_import (set_iter xs)) \<longrightarrow>
      fully_qualified_consumed_symbols_py set_iter_py (py_of_analysis a) =
        Inr (map PStr (fully_qualified_consumed_symbols set_iter a))) \<and>
   run_generator (Suc (length (fully_qualified_consumed_symbols set_iter a)))
     (iter_fully_qualified_consumed_symbols set_iter a) =
     Some (fully_qualified_consumed_symbols set_iter a) \<and>
   length (fully_qualified_consumed_symbols set_iter a) =
     (\<Sum>(scope, consumed_symbols) \<leftarrow> consumed_symbols_by_scope a.
        \<Sum>symbol \<leftarrow> consumed_symbols.
          length (scopes a) + (if scopes a = [] \<or> CHR ''.'' \<in> set symbol then 1 else 0) +
          length (parent_scope_wildcards set_iter (wildcard_imports_by_scope a) scope)) \<and>
   (consumed_symbols_by_scope a = [] \<longrightarrow> fully_qualified_consumed_symbols set_iter a = []) \<and>
   (scopes a = [] \<longrightarrow> imports_by_scope a = [] \<longrightarrow> set_iter [] = [] \<longrightarrow>
      fully_qualified_consumed_symbols set_iter a = concat (map snd (consumed_symbols_by_scope a)))"
proof (intro conjI impI)
  show "\<exists>ys. fully_qualified_consumed_symbols_py set_iter_py (py_of_analysis a) = Inr ys"
    by (rule fully_qualified_consumed_symbols_py_total)
next
  assume "\<forall>xs. set_iter_py (map py_of_import xs) = map py_of_import (set_iter xs)"
  then show "fully_qualified_consumed_symbols_py set_iter_py (py_of_analysis a) =
        Inr (map PStr (fully_qualified_consumed_symbols set_iter a))"
    by (intro fully_qualified_consumed_symbols_py_of) simp
next
  show "run_generator (Suc (length (fully_qualified_consumed_symbols set_iter a)))
     (iter_fully_qualified_consumed_symbols set_iter a) =
     Some (fully_qualified_consumed_symbols set_iter a)"
    by (simp add: iter_fully_qualified_consumed_symbols_def run_generator_Generator)
next
  show "length (fully_qualified_consumed_symbols set_iter a) =
     (\<Sum>(scope, consumed_symbols) \<leftarrow> consumed_symbols_by_scope a.
        \<Sum>symbol \<leftarrow> consumed_symbols.
          length (scopes a) + (if scopes a = [] \<or> CHR ''.'' \<in> set symbol then 1 else 0) +
          length (parent_scope_wildcards set_iter (wildcard_imports_by_scope a) scope))"
    by (rule length_fully_qualified_consumed_symbols)
next
  assume "consumed_symbols_by_scope a = []"
  then show "fully_qualified_consumed_symbols set_iter a = []"
    by (simp add: fully_qualified_consumed_symbols_def)
next
  assume h: "scopes a = []" "imports_by_scope a = []" "set_iter [] = []"
  then have "symbol_candidates a [] = (\<lambda>symbol. [symbol])"
    by (simp add: symbol_candidates_def fun_eq_iff)
  then have "concat (map (symbol_candidates a []) syms) = syms" for syms
    by (simp only: concat_map_singleton map_ident)
  with h have "scope_candidates set_iter a (wildcard_imports_by_scope a) = snd"
    by (simp add: scope_candidates_def parent_scope_wildcards_def
        parent_scope_wildcards_inserted_def wildcard_imports_by_scope_def fun_eq_iff)
  then show "fully_qualified_consumed_symbols set_iter a =
      concat (map snd (consumed_symbols_by_scope a))"
    by (simp add: fully_qualified_consumed_symbols_def)
qed

theorem resolver_total_witness:
  "(\<forall>xs. remdups (map py_of_import xs) = map py_of_import (remdups xs)) \<and>
   fully_qualified_consumed_symbols_py remdups (py_of_analysis example_analysis) =
     Inr [PStr ''com.foo.Bar.Qux'', PStr ''com.baz._.Qux''] \<and>
   consumed_symbols_by_scope empty_analysis = [] \<and>
   fully_qualified_consumed_symbols_py remdups (py_of_analysis empty_analysis) = Inr [] \<and>
   run_generator 1 (iter_fully_qualified_consumed_symbols remdups empty_analysis) = Some [] \<and>
   scopes no_scopes_analysis = [] \<and> imports_by_scope no_scopes_analysis = [] \<and>
   remdups [] = ([] :: ScalaImport list) \<and>
   fully_qualified_consumed_symbols_py remdups (py_of_analysis no_scopes_analysis) =
     Inr [PStr ''Foo'', PStr ''Bar''] \<and>
   run_generator 3 (iter_fully_qualified_consumed_symbols remdups no_scopes_analysis) =
     Some [''Foo'', ''Bar''] \<and>
   fully_qualified_consumed_symbols_py remdups null_symbol_analysis = Inl (TypeError ''in'')"
proof -
  have nat: "\<forall>xs. remdups (map py_of_import xs) = map py_of_import (remdups xs)"
    by (simp add: remdups_py_of_import)
  have e: "consumed_symbols_by_scope empty_analysis = []"
    by (simp add: empty_analysis_def)
  have n: "scopes no_scopes_analysis = []" "imports_by_scope no_scopes_analysis = []"
    "consumed_symbols_by_scope no_scopes_analysis = [([], [''Foo'', ''Bar''])]"
    by (simp_all add: no_scopes_analysis_def)
  have r: "remdups [] = ([] :: ScalaImport list)" by simp
  note t1 = resolver_total [of remdups example_analysis remdups]
  note t2 = resolver_total [of remdups empty_analysis remdups]
  note t3 = resolver_total [of remdups no_scopes_analysis remdups]
  from t2 e have c1: "fully_qualified_consumed_symbols remdups empty_analysis = []" by blast
  from t3 n r have c2: "fully_qualified_consumed_symbols remdups no_scopes_analysis =
      [''Foo'', ''Bar'']"
    by simp
  from t1 nat have p1: "fully_qualified_consumed_symbols_py remdups (py_of_analysis example_analysis) =
     Inr [PStr ''com.foo.Bar.Qux'', PStr ''com.baz._.Qux'']"
    by (simp add: example_candidates)
  from t2 nat c1 have p2:
    "fully_qualified_consumed_symbols_py remdups (py_of_analysis empty_analysis) = Inr []"
    by simp
  from t3 nat c2 have p3:
    "fully_qualified_consumed_symbols_py remdups (py_of_analysis no_scopes_analysis) =
     Inr [PStr ''Foo'', PStr ''Bar'']"
    by simp
  have l: "Suc (length ([] :: string list)) = 1" "Suc (length [''Foo'', ''Bar'']) = 3"
    by simp_all
  from t2 [THEN conjunct2, THEN conjunct2, THEN conjunct1]
  have g1: "run_generator 1 (iter_fully_qualified_consumed_symbols remdups empty_analysis) =
      Some []"
    unfolding c1 l .
  from t3 [THEN conjunct2, THEN conjunct2, THEN conjunct1]
  have g2: "run_generator 3 (iter_fully_qualified_consumed_symbols remdups no_scopes_analysis) =
     Some [''Foo'', ''Bar'']"
    unfolding c2 l .
  from nat p1 e p2 g1 n r p3 g2 null_symbol_raises [of remdups] show ?thesis by blast
qed

section \<open>Properties of the serialization\<close>

lemma FrozenOrderedSet_snoc:
  "FrozenOrderedSet (xs @ [x]) =
     (if x \<in> set (FrozenOrderedSet xs) then FrozenOrderedSet xs else FrozenOrderedSet xs @ [x])"
  by (simp add: FrozenOrderedSet_def)

lemma first_index_append:
  "x \<in> set xs \<Longrightarrow> first_index (xs @ ys) x = first_index xs x"
  by (simp add: first_index_def)

lemma first_index_less:
  "x \<in> set xs \<Longrightarrow> first_index xs x < length xs"
  unfolding first_index_def by (induction xs) auto

lemma first_index_new:
  "x \<notin> set xs \<Longrightarrow> first_index (xs @ [x]) x = length xs"
  unfolding first_index_def by (induction xs) auto

lemma FrozenOrderedSet_first_occurrence:
  "in_first_occurrence_order xs (FrozenOrderedSet xs)"
proof (induction xs rule: rev_induct)
  case Nil
  show ?case by (simp add: in_first_occurrence_order_def FrozenOrderedSet_def)
next
  case (snoc x xs)
  let ?r = "FrozenOrderedSet xs"
  from snoc have d: "distinct ?r" and s: "set ?r = set xs"
    and o: "sorted_wrt (\<lambda>x y. first_index xs x < first_index xs y) ?r"
    by (simp_all add: in_first_occurrence_order_def)
  have o': "sorted_wrt (\<lambda>y z. first_index (xs @ [x]) y < first_index (xs @ [x]) z) ?r"
    using o s by (auto elim!: sorted_wrt_mono_rel [rotated] simp: first_index_append)
  show ?case
  proof (cases "x \<in> set xs")
    case True
    with d s o' show ?thesis
      by (auto simp: in_first_occurrence_order_def FrozenOrderedSet_snoc)
  next
    case False
    have "first_index (xs @ [x]) y < first_index (xs @ [x]) x" if "y \<in> set xs" for y
      using that False by (simp add: first_index_append first_index_new first_index_less)
    with False d s o' show ?thesis
      by (auto simp: in_first_occurrence_order_def FrozenOrderedSet_snoc sorted_wrt_append)
  qed
qed

lemma set_FrozenOrderedSet: "set (FrozenOrderedSet xs) = set xs"
  using FrozenOrderedSet_first_occurrence [of xs] by (simp add: in_first_occurrence_order_def)

lemma distinct_FrozenOrderedSet: "distinct (FrozenOrderedSet xs)"
  using FrozenOrderedSet_first_occurrence [of xs] by (simp add: in_first_occurrence_order_def)

lemma FrozenOrderedSet_distinct_id: "distinct xs \<Longrightarrow> FrozenOrderedSet xs = xs"
  by (induction xs rule: rev_induct) (simp_all add: FrozenOrderedSet_snoc set_FrozenOrderedSet,
      simp add: FrozenOrderedSet_def)

lemma dict_comprehension_wf:
  assumes "distinct (map fst items)" and "fst ` set items \<inter> fst ` set acc = {}"
  shows "dict_comprehension f items acc = acc @ map (\<lambda>(k, v). (k, f v)) items"
  using assms
proof (induction f items acc rule: dict_comprehension.induct)
  case (1 f acc)
  show ?case by simp
next
  case (2 f key "values" items acc)
  from "2.prems" have new: "key \<notin> fst ` set acc" by auto
  from "2.prems" have "fst ` set items \<inter> fst ` set (acc @ [(key, f values)]) = {}" by auto
  with "2.IH" "2.prems" new show ?case by (simp add: dict_setitem_new_key)
qed

lemma distinct_keys_dict_comprehension:
  "distinct (map fst acc) \<Longrightarrow> distinct (map fst (dict_comprehension f items acc))"
  by (induction f items acc rule: dict_comprehension.induct) (simp_all add: distinct_update)

lemma tuple_of_Inr:
  "(\<And>v. v \<in> set vs \<Longrightarrow> f v = Inr (g v)) \<Longrightarrow> tuple_of f vs = Inr (map g vs)"
  by (induction vs) simp_all

lemma dict_comprehension_raising_Inr:
  "(\<And>k v. (k, v) \<in> set items \<Longrightarrow> f v = Inr (g v)) \<Longrightarrow>
   dict_comprehension_raising f items acc = Inr (dict_comprehension g items acc)"
proof (induction items arbitrary: acc)
  case Nil
  show ?case by simp
next
  case (Cons p items)
  obtain key "values" where p: "p = (key, values)" by (cases p)
  from Cons.prems [of key "values"] p have v: "f values = Inr (g values)" by simp
  have "dict_comprehension_raising f items acc' = Inr (dict_comprehension g items acc')" for acc'
    using Cons.prems by (intro Cons.IH) auto
  with v p show ?case by simp
qed

lemma ScalaImport_from_json_dict_Inr:
  "json_name v \<noteq> None \<and> isWildcard v \<noteq> None \<Longrightarrow>
   ScalaImport_from_json_dict v = Inr (import_of_json v)"
  by (auto simp: ScalaImport_from_json_dict_def getitem_def import_of_json_def)

lemma from_json_dict_Inr:
  assumes "list_all (\<lambda>(k, vs). list_all (\<lambda>v. json_name v \<noteq> None \<and> isWildcard v \<noteq> None) vs) ibs"
  shows "from_json_dict \<lparr> providedSymbols = Some ps, providedSymbolsEncoded = Some pse,
           importsByScope = Some ibs, consumedSymbolsByScope = Some cbs,
           json_scopes = Some ss \<rparr> =
         Inr \<lparr> provided_symbols = FrozenOrderedSet ps,
               provided_symbols_encoded = FrozenOrderedSet pse,
               imports_by_scope = dict_comprehension (map import_of_json) ibs [],
               consumed_symbols_by_scope = dict_comprehension FrozenOrderedSet cbs [],
               scopes = FrozenOrderedSet ss \<rparr>"
proof -
  have "tuple_of ScalaImport_from_json_dict vs = Inr (map import_of_json vs)"
    if "(k, vs) \<in> set ibs" for k vs
    using assms that
    by (intro tuple_of_Inr ScalaImport_from_json_dict_Inr) (auto simp: list_all_iff)
  then have "dict_comprehension_raising (tuple_of ScalaImport_from_json_dict) ibs [] =
        Inr (dict_comprehension (map import_of_json) ibs [])"
    by (rule dict_comprehension_raising_Inr)
  then show ?thesis by (simp add: from_json_dict_def getitem_def)
qed


lemma dict_comprehension_wf_dict:
  "wf_dict items \<Longrightarrow> dict_comprehension f items [] = map (\<lambda>(k, v). (k, f v)) items"
  using dict_comprehension_wf [of items "[]" f] by (simp add: wf_dict_def)

lemma wf_dict_map_values: "wf_dict (map (\<lambda>(k, v). (k, f v)) items) = wf_dict items"
  by (simp add: wf_dict_def comp_def case_prod_unfold)

lemma list_all2_map_values:
  "(\<And>k v. (k, v) \<in> set items \<Longrightarrow> P v (f v)) \<Longrightarrow>
   list_all2 (\<lambda>(k, v) (k', w). k' = k \<and> P v w) items (map (\<lambda>(k, v). (k, f v)) items)"
  by (auto simp: list_all2_map2 intro!: list.rel_refl_strong)

lemma example_from_json_dict: "from_json_dict example_json = Inr example_deserialized"
  by (simp add: example_json_def example_imports_json_def example_consumed_json_def
      example_deserialized_def from_json_dict_def getitem_def ScalaImport_from_json_dict_def
      FrozenOrderedSet_def)

lemma example_to_debug_json_dict: "to_debug_json_dict example_deserialized = example_debug"
  by (simp add: example_deserialized_def example_debug_def to_debug_json_dict_def
      ScalaImport_to_debug_json_dict_def less_eq_list_code less_eq_char_def)

lemma example_json_keys:
  "list_all (\<lambda>(k, vs). list_all (\<lambda>v. json_name v \<noteq> None \<and> isWildcard v \<noteq> None) vs)
     example_imports_json"
  by (auto simp: example_imports_json_def)

text \<open>
  Claim C6 (round trip). A transport record that has the five keys, and both keys in
  every import, deserializes to an analysis, and the debug record of that analysis keeps
  the content: provided symbols, encoded provided symbols and scopes appear deduplicated
  in order of first occurrence (unchanged when the list had no repetition), every scope
  keeps its imports in declaration order, and every scope keeps its consumed symbols,
  each once, in sorted order. The scopes of the two dictionaries stay in insertion
  order.
\<close>

theorem debug_round_trip:
  assumes "wf_dict ibs" and "wf_dict cbs"
    and "list_all (\<lambda>(k, vs). list_all (\<lambda>v. json_name v \<noteq> None \<and> isWildcard v \<noteq> None) vs) ibs"
  shows "\<exists>a. from_json_dict \<lparr> providedSymbols = Some ps, providedSymbolsEncoded = Some pse,
                 importsByScope = Some ibs, consumedSymbolsByScope = Some cbs,
                 json_scopes = Some ss \<rparr> = Inr a \<and>
     in_first_occurrence_order ps (debug_provided_symbols (to_debug_json_dict a)) \<and>
     in_first_occurrence_order pse (debug_provided_symbols_encoded (to_debug_json_dict a)) \<and>
     in_first_occurrence_order ss (debug_scopes (to_debug_json_dict a)) \<and>
     (distinct ps \<longrightarrow> debug_provided_symbols (to_debug_json_dict a) = ps) \<and>
     (distinct pse \<longrightarrow> debug_provided_symbols_encoded (to_debug_json_dict a) = pse) \<and>
     (distinct ss \<longrightarrow> debug_scopes (to_debug_json_dict a) = ss) \<and>
     list_all2 (\<lambda>(k, vs) (k', ws). k' = k \<and>
                  list_all2 (\<lambda>v w. json_name v = Some (debug_name w) \<and>
                                    isWildcard v = Some (debug_is_wildcard w)) vs ws)
       ibs (debug_imports_by_scope (to_debug_json_dict a)) \<and>
     list_all2 (\<lambda>(k, vs) (k', ws). k' = k \<and> sorted ws \<and> distinct ws \<and> set ws = set vs)
       cbs (debug_consumed_symbols_by_scope (to_debug_json_dict a))"
proof -
  let ?a = "\<lparr> provided_symbols = FrozenOrderedSet ps,
               provided_symbols_encoded = FrozenOrderedSet pse,
               imports_by_scope = dict_comprehension (map import_of_json) ibs [],
               consumed_symbols_by_scope = dict_comprehension FrozenOrderedSet cbs [],
               scopes = FrozenOrderedSet ss \<rparr>"
  let ?r = "to_debug_json_dict ?a"
  have i1: "dict_comprehension (map import_of_json) ibs [] =
      map (\<lambda>(k, vs). (k, map import_of_json vs)) ibs"
    using assms(1) by (rule dict_comprehension_wf_dict)
  have i2: "dict_comprehension (map ScalaImport_to_debug_json_dict)
        (map (\<lambda>(k, vs). (k, map import_of_json vs)) ibs) [] =
      map (\<lambda>(k, vs). (k, map ScalaImport_to_debug_json_dict vs))
        (map (\<lambda>(k, vs). (k, map import_of_json vs)) ibs)"
    by (rule dict_comprehension_wf_dict) (simp add: wf_dict_map_values assms(1))
  have "debug_imports_by_scope ?r =
      dict_comprehension (map ScalaImport_to_debug_json_dict)
        (dict_comprehension (map import_of_json) ibs []) []"
    by (simp add: to_debug_json_dict_def)
  also have "\<dots> = map (\<lambda>(k, vs). (k, map ScalaImport_to_debug_json_dict vs))
        (map (\<lambda>(k, vs). (k, map import_of_json vs)) ibs)"
    unfolding i1 by (rule i2)
  also have "\<dots> =
      map (\<lambda>(k, vs). (k, map (\<lambda>v. ScalaImport_to_debug_json_dict (import_of_json v)) vs)) ibs"
    by (simp add: comp_def case_prod_unfold)
  finally have imps_eq: "debug_imports_by_scope ?r =
      map (\<lambda>(k, vs). (k, map (\<lambda>v. ScalaImport_to_debug_json_dict (import_of_json v)) vs)) ibs" .
  have s1: "dict_comprehension FrozenOrderedSet cbs [] =
      map (\<lambda>(k, vs). (k, FrozenOrderedSet vs)) cbs"
    using assms(2) by (rule dict_comprehension_wf_dict)
  have s2: "dict_comprehension sort (map (\<lambda>(k, vs). (k, FrozenOrderedSet vs)) cbs) [] =
      map (\<lambda>(k, vs). (k, sort vs)) (map (\<lambda>(k, vs). (k, FrozenOrderedSet vs)) cbs)"
    by (rule dict_comprehension_wf_dict) (simp add: wf_dict_map_values assms(2))
  have "debug_consumed_symbols_by_scope ?r =
      dict_comprehension sort (dict_comprehension FrozenOrderedSet cbs []) []"
    by (simp add: to_debug_json_dict_def)
  also have "\<dots> = map (\<lambda>(k, vs). (k, sort vs)) (map (\<lambda>(k, vs). (k, FrozenOrderedSet vs)) cbs)"
    unfolding s1 by (rule s2)
  also have "\<dots> = map (\<lambda>(k, vs). (k, sort (FrozenOrderedSet vs))) cbs"
    by (simp add: comp_def case_prod_unfold)
  finally have cons_eq: "debug_consumed_symbols_by_scope ?r =
      map (\<lambda>(k, vs). (k, sort (FrozenOrderedSet vs))) cbs" .
  have "list_all2 (\<lambda>v w. json_name v = Some (debug_name w) \<and>
                         isWildcard v = Some (debug_is_wildcard w))
          vs (map (\<lambda>v. ScalaImport_to_debug_json_dict (import_of_json v)) vs)"
    if "(k, vs) \<in> set ibs" for k vs
    using assms(3) that
    by (auto simp: list_all2_map2 list_all_iff ScalaImport_to_debug_json_dict_def
        import_of_json_def intro!: list.rel_refl_strong)
  then have c1: "list_all2 (\<lambda>(k, vs) (k', ws). k' = k \<and>
                  list_all2 (\<lambda>v w. json_name v = Some (debug_name w) \<and>
                                    isWildcard v = Some (debug_is_wildcard w)) vs ws)
       ibs (debug_imports_by_scope ?r)"
    unfolding imps_eq by (rule list_all2_map_values)
  have c2: "list_all2 (\<lambda>(k, vs) (k', ws). k' = k \<and> sorted ws \<and> distinct ws \<and> set ws = set vs)
       cbs (debug_consumed_symbols_by_scope ?r)"
    unfolding cons_eq
    by (rule list_all2_map_values) (simp add: set_FrozenOrderedSet distinct_FrozenOrderedSet)
  have c3: "in_first_occurrence_order ps (debug_provided_symbols ?r)"
    "in_first_occurrence_order pse (debug_provided_symbols_encoded ?r)"
    "in_first_occurrence_order ss (debug_scopes ?r)"
    by (simp_all add: to_debug_json_dict_def FrozenOrderedSet_first_occurrence)
  have c4: "distinct ps \<longrightarrow> debug_provided_symbols ?r = ps"
    "distinct pse \<longrightarrow> debug_provided_symbols_encoded ?r = pse"
    "distinct ss \<longrightarrow> debug_scopes ?r = ss"
    by (simp_all add: to_debug_json_dict_def FrozenOrderedSet_distinct_id)
  from from_json_dict_Inr [OF assms(3)] c1 c2 c3 c4 show ?thesis by blast
qed

theorem debug_round_trip_witness:
  "wf_dict example_imports_json \<and> wf_dict example_consumed_json \<and>
   list_all (\<lambda>(k, vs). list_all (\<lambda>v. json_name v \<noteq> None \<and> isWildcard v \<noteq> None) vs)
     example_imports_json \<and>
   (\<exists>a. from_json_dict example_json = Inr a \<and> to_debug_json_dict a = example_debug \<and>
        in_first_occurrence_order [''com.foo.Bar'', ''com.foo.Baz'', ''com.foo.Bar'']
          (debug_provided_symbols (to_debug_json_dict a)) \<and>
        list_all2 (\<lambda>(k, vs) (k', ws). k' = k \<and> sorted ws \<and> distinct ws \<and> set ws = set vs)
          example_consumed_json (debug_consumed_symbols_by_scope (to_debug_json_dict a)))"
proof -
  have h1: "wf_dict example_imports_json" by (simp add: wf_dict_def example_imports_json_def)
  have h2: "wf_dict example_consumed_json" by (simp add: wf_dict_def example_consumed_json_def)
  from debug_round_trip [OF h1 h2 example_json_keys,
      of "[''com.foo.Bar'', ''com.foo.Baz'', ''com.foo.Bar'']" "[''com.foo.Bar'', ''com.foo.Baz'']"
         "[''com.foo.Bar'', ''com.foo'', ''com.foo.Bar'']"]
  obtain a where a: "from_json_dict example_json = Inr a"
    "in_first_occurrence_order [''com.foo.Bar'', ''com.foo.Baz'', ''com.foo.Bar'']
          (debug_provided_symbols (to_debug_json_dict a))"
    "list_all2 (\<lambda>(k, vs) (k', ws). k' = k \<and> sorted ws \<and> distinct ws \<and> set ws = set vs)
          example_consumed_json (debug_consumed_symbols_by_scope (to_debug_json_dict a))"
    unfolding example_json_def by blast
  from a(1) have "a = example_deserialized" by (simp add: example_from_json_dict)
  then have "to_debug_json_dict a = example_debug" by (simp add: example_to_debug_json_dict)
  with h1 h2 example_json_keys a show ?thesis by blast
qed

text \<open>
  Claim C10 (deduplication). Deserialization accepts lists with repeated entries: the
  analysis it builds satisfies the invariants of the record, and its provided symbols,
  encoded provided symbols, scopes and the consumed symbols of each scope hold every
  element of the corresponding list once, in order of first occurrence.
\<close>

theorem deserialization_deduplicates:
  assumes "wf_dict cbs"
    and "list_all (\<lambda>(k, vs). list_all (\<lambda>v. json_name v \<noteq> None \<and> isWildcard v \<noteq> None) vs) ibs"
  shows "\<exists>a. from_json_dict \<lparr> providedSymbols = Some ps, providedSymbolsEncoded = Some pse,
                 importsByScope = Some ibs, consumedSymbolsByScope = Some cbs,
                 json_scopes = Some ss \<rparr> = Inr a \<and>
     wf_analysis a \<and>
     in_first_occurrence_order ps (provided_symbols a) \<and>
     in_first_occurrence_order pse (provided_symbols_encoded a) \<and>
     in_first_occurrence_order ss (scopes a) \<and>
     list_all2 (\<lambda>(k, vs) (k', ws). k' = k \<and> in_first_occurrence_order vs ws)
       cbs (consumed_symbols_by_scope a)"
proof -
  let ?a = "\<lparr> provided_symbols = FrozenOrderedSet ps,
               provided_symbols_encoded = FrozenOrderedSet pse,
               imports_by_scope = dict_comprehension (map import_of_json) ibs [],
               consumed_symbols_by_scope = dict_comprehension FrozenOrderedSet cbs [],
               scopes = FrozenOrderedSet ss \<rparr>"
  have cons_eq: "consumed_symbols_by_scope ?a = map (\<lambda>(k, vs). (k, FrozenOrderedSet vs)) cbs"
    using assms(1) by (simp add: dict_comprehension_wf_dict)
  have "wf_analysis ?a"
    unfolding wf_analysis_def cons_eq
    by (simp add: distinct_FrozenOrderedSet wf_dict_def distinct_keys_dict_comprehension
        list_all_iff case_prod_unfold)
      (use assms(1) in \<open>simp add: wf_dict_def comp_def case_prod_unfold\<close>)
  moreover have "list_all2 (\<lambda>(k, vs) (k', ws). k' = k \<and> in_first_occurrence_order vs ws)
       cbs (consumed_symbols_by_scope ?a)"
    unfolding cons_eq
    by (rule list_all2_map_values) (rule FrozenOrderedSet_first_occurrence)
  moreover have "in_first_occurrence_order ps (provided_symbols ?a)"
    "in_first_occurrence_order pse (provided_symbols_encoded ?a)"
    "in_first_occurrence_order ss (scopes ?a)"
    by (simp_all add: FrozenOrderedSet_first_occurrence)
  ultimately show ?thesis using from_json_dict_Inr [OF assms(2)] by blast
qed


theorem deserialization_deduplicates_witness:
  "wf_dict example_consumed_json \<and>
   list_all (\<lambda>(k, vs). list_all (\<lambda>v. json_name v \<noteq> None \<and> isWildcard v \<noteq> None) vs)
     example_imports_json \<and>
   (\<exists>a. from_json_dict example_json = Inr a \<and> a = example_deserialized \<and> wf_analysis a \<and>
        in_first_occurrence_order [''com.foo.Bar'', ''com.foo.Baz'', ''com.foo.Bar'']
          (provided_symbols a) \<and>
        list_all2 (\<lambda>(k, vs) (k', ws). k' = k \<and> in_first_occurrence_order vs ws)
          example_consumed_json (consumed_symbols_by_scope a))"
proof -
  have h: "wf_dict example_consumed_json" by (simp add: wf_dict_def example_consumed_json_def)
  from deserialization_deduplicates [OF h example_json_keys,
      of "[''com.foo.Bar'', ''com.foo.Baz'', ''com.foo.Bar'']" "[''com.foo.Bar'', ''com.foo.Baz'']"
         "[''com.foo.Bar'', ''com.foo'', ''com.foo.Bar'']"]
  obtain a where a: "from_json_dict example_json = Inr a" "wf_analysis a"
    "in_first_occurrence_order [''com.foo.Bar'', ''com.foo.Baz'', ''com.foo.Bar'']
          (provided_symbols a)"
    "list_all2 (\<lambda>(k, vs) (k', ws). k' = k \<and> in_first_occurrence_order vs ws)
          example_consumed_json (consumed_symbols_by_scope a)"
    unfolding example_json_def by blast
  from a(1) have "a = example_deserialized" by (simp add: example_from_json_dict)
  with h example_json_keys a show ?thesis by blast
qed

section \<open>Properties of the pipeline\<close>

lemma analyze_no_file:
  "length (files source_files) = 0 \<Longrightarrow>
   analyze_scala_source_dependencies eng bash jdk_setup processor_classfiles source_files log =
     (Inl (ValueError
        ''analyze_scala_source_dependencies expects sources with exactly 1 source file, but found none.''),
      log)"
  by (simp add: analyze_scala_source_dependencies_def)

lemma analyze_many_files:
  "length (files source_files) > 1 \<Longrightarrow>
   analyze_scala_source_dependencies eng bash jdk_setup processor_classfiles source_files log =
     (Inl (ValueError
        (''analyze_scala_source_dependencies expects sources with exactly 1 source file, but found ''
         @ string_of_nat (length (snapshot_files (snapshot source_files))) @ ''.'')),
      log)"
  by (simp add: analyze_scala_source_dependencies_def)

lemma analyze_one_file:
  assumes "length (files source_files) = 1"
  shows "\<exists>fr p log'.
     analyze_scala_source_dependencies eng bash jdk_setup processor_classfiles source_files log =
       (Inr fr, log' @ [Process_request p]) \<and>
     description p = ''Analyzing '' @ files source_files ! 0 \<and>
     process_result fr = get_fallible_process_result eng p"
proof -
  from assms have "\<not> length (files source_files) > 1" "length (files source_files) \<noteq> 0"
    by simp_all
  then show ?thesis
    unfolding analyze_scala_source_dependencies_def Let_def
    by (simp del: append_assoc add: append_assoc [symmetric])
qed

text \<open>
  Claim C9 (precondition). Given no source file, or more than one, the first rule raises
  a \<^verbatim>\<open>ValueError\<close> and leaves the log of requests as it was: nothing has been asked of
  the engine, so the parser process has not been started. The pipeline raises the same
  error. With exactly one file the rule does issue the process request.
\<close>

theorem precondition_violation:
  "(length (files source_files) = 0 \<longrightarrow>
      analyze_scala_source_dependencies eng bash jdk_setup processor_classfiles source_files log =
        (Inl (ValueError
           ''analyze_scala_source_dependencies expects sources with exactly 1 source file, but found none.''),
         log)) \<and>
   (length (files source_files) > 1 \<longrightarrow>
      analyze_scala_source_dependencies eng bash jdk_setup processor_classfiles source_files log =
        (Inl (ValueError
           (''analyze_scala_source_dependencies expects sources with exactly 1 source file, but found ''
            @ string_of_nat (length (snapshot_files (snapshot source_files))) @ ''.'')),
         log)) \<and>
   (length (files source_files) \<noteq> 1 \<longrightarrow>
      (\<exists>msg. analysis_pipeline eng json_loads bash jdk_setup processor_classfiles source_files
                global_options log = (Inl (ValueError msg), log))) \<and>
   (length (files source_files) = 1 \<longrightarrow>
      (\<exists>p. Process_request p \<in> set (snd (analyze_scala_source_dependencies eng bash jdk_setup
                processor_classfiles source_files log))))"
proof (intro conjI impI)
  assume "length (files source_files) = 0"
  then show "analyze_scala_source_dependencies eng bash jdk_setup processor_classfiles
      source_files log =
        (Inl (ValueError
           ''analyze_scala_source_dependencies expects sources with exactly 1 source file, but found none.''),
         log)"
    by (rule analyze_no_file)
next
  assume "length (files source_files) > 1"
  then show "analyze_scala_source_dependencies eng bash jdk_setup processor_classfiles
      source_files log =
        (Inl (ValueError
           (''analyze_scala_source_dependencies expects sources with exactly 1 source file, but found ''
            @ string_of_nat (length (snapshot_files (snapshot source_files))) @ ''.'')),
         log)"
    by (rule analyze_many_files)
next
  assume "length (files source_files) \<noteq> 1"
  then consider "length (files source_files) = 0" | "length (files source_files) > 1"
    by linarith
  then show "\<exists>msg. analysis_pipeline eng json_loads bash jdk_setup processor_classfiles
      source_files global_options log = (Inl (ValueError msg), log)"
  proof cases
    case 1
    then show ?thesis by (simp add: analysis_pipeline_def analyze_no_file)
  next
    case 2
    then show ?thesis by (simp add: analysis_pipeline_def analyze_many_files)
  qed
next
  assume "length (files source_files) = 1"
  from analyze_one_file [OF this]
  show "\<exists>p. Process_request p \<in> set (snd (analyze_scala_source_dependencies eng bash jdk_setup
                processor_classfiles source_files log))"
    by (metis in_set_conv_decomp snd_conv)
qed

lemma string_of_nat_2: "string_of_nat (Suc (Suc 0)) = ''2''"
  by (simp add: string_of_nat.simps [of "Suc (Suc 0)"])

theorem precondition_violation_witness:
  "length (files (example_sources [])) = 0 \<and>
   analyze_scala_source_dependencies failing_engine \<lparr> bash_path = ''/bin/bash'' \<rparr> example_jdk
       \<lparr> classfiles_digest = Digest ''cf'' 1 \<rparr> (example_sources []) [] =
     (Inl (ValueError
        ''analyze_scala_source_dependencies expects sources with exactly 1 source file, but found none.''),
      []) \<and>
   length (files (example_sources [''A.scala'', ''B.scala''])) > 1 \<and>
   analyze_scala_source_dependencies failing_engine \<lparr> bash_path = ''/bin/bash'' \<rparr> example_jdk
       \<lparr> classfiles_digest = Digest ''cf'' 1 \<rparr> (example_sources [''A.scala'', ''B.scala'']) [] =
     (Inl (ValueError
        ''analyze_scala_source_dependencies expects sources with exactly 1 source file, but found 2.''),
      []) \<and>
   length (files (example_sources [''A.scala''])) = 1 \<and>
   (\<exists>p. Process_request p \<in> set (snd (analyze_scala_source_dependencies failing_engine
       \<lparr> bash_path = ''/bin/bash'' \<rparr> example_jdk \<lparr> classfiles_digest = Digest ''cf'' 1 \<rparr>
       (example_sources [''A.scala'']) [])))"
  using precondition_violation [of "example_sources []" failing_engine
      "\<lparr> bash_path = ''/bin/bash'' \<rparr>" example_jdk "\<lparr> classfiles_digest = Digest ''cf'' 1 \<rparr>" "[]"
      no_json "\<lparr> process_execution_local_cleanup = True \<rparr>"]
    precondition_violation [of "example_sources [''A.scala'', ''B.scala'']" failing_engine
      "\<lparr> bash_path = ''/bin/bash'' \<rparr>" example_jdk "\<lparr> classfiles_digest = Digest ''cf'' 1 \<rparr>" "[]"
      no_json "\<lparr> process_execution_local_cleanup = True \<rparr>"]
    precondition_violation [of "example_sources [''A.scala'']" failing_engine
      "\<lparr> bash_path = ''/bin/bash'' \<rparr>" example_jdk "\<lparr> classfiles_digest = Digest ''cf'' 1 \<rparr>" "[]"
      no_json "\<lparr> process_execution_local_cleanup = True \<rparr>"]
  by (simp add: example_sources_def string_of_nat_2)


lemma resolve_failure:
  "exit_code (process_result fallible_result) \<noteq> 0 \<Longrightarrow>
   resolve_fallible_result_to_analysis eng json_loads fallible_result global_options log =
     (Inl (ProcessExecutionFailure
             (exit_code (process_result fallible_result))
             (stdout (process_result fallible_result))
             (stderr (process_result fallible_result))
             ''Scala source dependency analysis failed.''
             (process_execution_local_cleanup global_options)),
      log)"
  by (simp add: resolve_fallible_result_to_analysis_def)

text \<open>
  Claim C3, amended (execution failure). When the parser process reports a non-zero exit
  code, the second rule raises a \<^verbatim>\<open>ProcessExecutionFailure\<close> that carries the exit
  code, the captured stdout and stderr as they are, and the local-cleanup option; its
  description is the fixed text \<open>Scala source dependency analysis failed.\<close> and does not
  depend on the source file. In the pipeline, the first rule issues one process request,
  whose description names the file (\<open>Analyzing\<close> followed by its path); when the
  answer to that request has a non-zero exit code, the pipeline raises the failure with
  the fixed text as its description.
\<close>

theorem execution_failure_raised:
  "(exit_code (process_result fallible_result) \<noteq> 0 \<longrightarrow>
      resolve_fallible_result_to_analysis eng json_loads fallible_result global_options log =
        (Inl (ProcessExecutionFailure
                (exit_code (process_result fallible_result))
                (stdout (process_result fallible_result))
                (stderr (process_result fallible_result))
                ''Scala source dependency analysis failed.''
                (process_execution_local_cleanup global_options)),
         log)) \<and>
   (length (files source_files) = 1 \<longrightarrow>
      (\<exists>fr p log'.
         analyze_scala_source_dependencies eng bash jdk_setup processor_classfiles
           source_files log = (Inr fr, log' @ [Process_request p]) \<and>
         process_result fr = get_fallible_process_result eng p \<and>
         description p = ''Analyzing '' @ files source_files ! 0 \<and>
         (exit_code (get_fallible_process_result eng p) \<noteq> 0 \<longrightarrow>
            analysis_pipeline eng json_loads bash jdk_setup processor_classfiles source_files
              global_options log =
              (Inl (ProcessExecutionFailure
                      (exit_code (get_fallible_process_result eng p))
                      (stdout (get_fallible_process_result eng p))
                      (stderr (get_fallible_process_result eng p))
                      ''Scala source dependency analysis failed.''
                      (process_execution_local_cleanup global_options)),
               log' @ [Process_request p]))))"
proof (intro conjI impI)
  assume "exit_code (process_result fallible_result) \<noteq> 0"
  then show "resolve_fallible_result_to_analysis eng json_loads fallible_result global_options
      log =
        (Inl (ProcessExecutionFailure
                (exit_code (process_result fallible_result))
                (stdout (process_result fallible_result))
                (stderr (process_result fallible_result))
                ''Scala source dependency analysis failed.''
                (process_execution_local_cleanup global_options)),
         log)"
    by (rule resolve_failure)
next
  assume "length (files source_files) = 1"
  from analyze_one_file [OF this, of eng bash jdk_setup processor_classfiles log]
  obtain fr p log' where a:
    "analyze_scala_source_dependencies eng bash jdk_setup processor_classfiles source_files log =
       (Inr fr, log' @ [Process_request p])"
    "description p = ''Analyzing '' @ files source_files ! 0"
    "process_result fr = get_fallible_process_result eng p"
    by blast
  have "analysis_pipeline eng json_loads bash jdk_setup processor_classfiles source_files
              global_options log =
              (Inl (ProcessExecutionFailure
                      (exit_code (get_fallible_process_result eng p))
                      (stdout (get_fallible_process_result eng p))
                      (stderr (get_fallible_process_result eng p))
                      ''Scala source dependency analysis failed.''
                      (process_execution_local_cleanup global_options)),
               log' @ [Process_request p])"
    if "exit_code (get_fallible_process_result eng p) \<noteq> 0"
    using that a(1,3) resolve_failure [of fr eng json_loads global_options]
    by (simp add: analysis_pipeline_def)
  with a show "\<exists>fr p log'.
         analyze_scala_source_dependencies eng bash jdk_setup processor_classfiles
           source_files log = (Inr fr, log' @ [Process_request p]) \<and>
         process_result fr = get_fallible_process_result eng p \<and>
         description p = ''Analyzing '' @ files source_files ! 0 \<and>
         (exit_code (get_fallible_process_result eng p) \<noteq> 0 \<longrightarrow>
            analysis_pipeline eng json_loads bash jdk_setup processor_classfiles source_files
              global_options log =
              (Inl (ProcessExecutionFailure
                      (exit_code (get_fallible_process_result eng p))
                      (stdout (get_fallible_process_result eng p))
                      (stderr (get_fallible_process_result eng p))
                      ''Scala source dependency analysis failed.''
                      (process_execution_local_cleanup global_options)),
               log' @ [Process_request p]))"
    by blast
qed

theorem execution_failure_raised_witness:
  "length (files (example_sources [''Bar.scala''])) = 1 \<and>
   (\<forall>p. exit_code (get_fallible_process_result failing_engine p) \<noteq> 0) \<and>
   (\<exists>log'. analysis_pipeline failing_engine no_json \<lparr> bash_path = ''/bin/bash'' \<rparr> example_jdk
          \<lparr> classfiles_digest = Digest ''cf'' 1 \<rparr> (example_sources [''Bar.scala''])
          \<lparr> process_execution_local_cleanup = False \<rparr> [] =
     (Inl (ProcessExecutionFailure 1 ''out'' ''parse error''
            ''Scala source dependency analysis failed.'' False), log'))"
proof -
  have h1: "length (files (example_sources [''Bar.scala''])) = 1"
    by (simp add: example_sources_def)
  have h2: "get_fallible_process_result failing_engine p =
      \<lparr> exit_code = 1, stdout = ''out'', stderr = ''parse error'',
        output_digest = Digest ''empty'' 0 \<rparr>" for p
    by (simp add: failing_engine_def)
  from execution_failure_raised [of _ failing_engine no_json
      "\<lparr> process_execution_local_cleanup = False \<rparr>" "[]" "example_sources [''Bar.scala'']"
      "\<lparr> bash_path = ''/bin/bash'' \<rparr>" example_jdk "\<lparr> classfiles_digest = Digest ''cf'' 1 \<rparr>"] h1
  have "\<exists>log'. analysis_pipeline failing_engine no_json \<lparr> bash_path = ''/bin/bash'' \<rparr> example_jdk
          \<lparr> classfiles_digest = Digest ''cf'' 1 \<rparr> (example_sources [''Bar.scala''])
          \<lparr> process_execution_local_cleanup = False \<rparr> [] =
     (Inl (ProcessExecutionFailure 1 ''out'' ''parse error''
            ''Scala source dependency analysis failed.'' False), log')"
    by (auto simp: h2)
  with h1 h2 show ?thesis by simp
qed

text \<open>
  The description the claim asks for is not there. For the source file
  \<open>src/Foo.scala\<close> and a parser process that exits with code 1, the pipeline raises the
  failure with the description above, and the path of the file does not occur in it.
\<close>

theorem failure_names_file_counterexample:
  "fst (analysis_pipeline failing_engine no_json \<lparr> bash_path = ''/bin/bash'' \<rparr> example_jdk
          \<lparr> classfiles_digest = Digest ''cf'' 1 \<rparr> (example_sources [''src/Foo.scala''])
          \<lparr> process_execution_local_cleanup = True \<rparr> []) =
     Inl (ProcessExecutionFailure 1 ''out'' ''parse error''
            ''Scala source dependency analysis failed.'' True) \<and>
   failure_description (ProcessExecutionFailure 1 ''out'' ''parse error''
            ''Scala source dependency analysis failed.'' True) =
     Some ''Scala source dependency analysis failed.'' \<and>
   \<not> names_file ''Scala source dependency analysis failed.'' ''src/Foo.scala''"
proof (intro conjI)
  show "fst (analysis_pipeline failing_engine no_json \<lparr> bash_path = ''/bin/bash'' \<rparr> example_jdk
          \<lparr> classfiles_digest = Digest ''cf'' 1 \<rparr> (example_sources [''src/Foo.scala''])
          \<lparr> process_execution_local_cleanup = True \<rparr> []) =
     Inl (ProcessExecutionFailure 1 ''out'' ''parse error''
            ''Scala source dependency analysis failed.'' True)"
    by (simp add: analysis_pipeline_def analyze_scala_source_dependencies_def
        resolve_fallible_result_to_analysis_def example_sources_def failing_engine_def Let_def)
next
  show "failure_description (ProcessExecutionFailure 1 ''out'' ''parse error''
            ''Scala source dependency analysis failed.'' True) =
     Some ''Scala source dependency analysis failed.''"
    by simp
next
  show "\<not> names_file ''Scala source dependency analysis failed.'' ''src/Foo.scala''"
    by (simp add: names_file_def sublist_Cons_right)
qed

end
